theory Spec2Isabelle
  imports Complex_Main "HOL-Library.AList" "HOL-Library.Sublist" "HOL-Library.Signed_Division"
begin

section \<open>Strings and addresses\<close>

text \<open>
  JavaScript strings are modelled as \<open>string\<close>. \<open>toLowerCase\<close> maps the ASCII capitals
  to their small letters; addresses and hashes are ASCII.
\<close>

definition lower_char :: "char \<Rightarrow> char" where
  "lower_char c =
     (let n = (of_char c :: nat) in if 65 \<le> n \<and> n \<le> 90 then char_of (n + 32) else c)"

definition toLowerCase :: "string \<Rightarrow> string" where
  "toLowerCase s = map lower_char s"

definition is_hex_char :: "char \<Rightarrow> bool" where
  "is_hex_char c =
     (let n = (of_char c :: nat)
      in (48 \<le> n \<and> n \<le> 57) \<or> (65 \<le> n \<and> n \<le> 70) \<or> (97 \<le> n \<and> n \<le> 102))"

text \<open>viem's \<open>isAddress\<close> (non-strict): the pattern \<open>^0x[a-fA-F0-9]{40}$\<close>.\<close>

definition isAddress :: "string \<Rightarrow> bool" where
  "isAddress a = (take 2 a = ''0x'' \<and> length a = 42 \<and> list_all is_hex_char (drop 2 a))"

datatype error = InvalidAddressError | RangeError | ProviderError string

text \<open>
  viem's \<open>getAddress\<close> throws on a string that is not an address and otherwise returns
  the address in EIP-55 casing. The casing needs Keccak-256 and is not modelled: the
  result is the argument itself. Every comparison in the code below is made on
  \<open>toLowerCase\<close> of the result, which does not depend on the casing.
\<close>

definition getAddress :: "string \<Rightarrow> error + string" where
  "getAddress a = (if isAddress a then Inr a else Inl InvalidAddressError)"

definition VIRTUAL_ADDRESS :: string where
  "VIRTUAL_ADDRESS = ''0x0b3e328455c4059EEb9e3f84b5543F74E24e7E1b''"

section \<open>Parsed transfers and transaction groups\<close>

text \<open>
  \<open>ParsedTransfer\<close> of \<open>types.ts\<close>. The fields \<open>from\<close>, \<open>to\<close>, \<open>value\<close> and
  \<open>address\<close> are written \<open>t_from\<close>, \<open>t_to\<close>, \<open>t_value\<close> and \<open>t_address\<close>.
  A \<open>bigint\<close> is an \<open>int\<close>; log index and block number are integral numbers.
\<close>

record ParsedTransfer =
  t_address :: string
  t_from :: string
  t_to :: string
  t_value :: int
  txHash :: string
  logIndex :: int
  blockNumber :: int

record TxTransferGroup =
  token :: "ParsedTransfer list"
  virtual :: "ParsedTransfer list"

subsection \<open>launch-path-parser.ts\<close>

definition LAUNCH_PATH_NET_ADDRESS :: string where
  "LAUNCH_PATH_NET_ADDRESS = ''0x0000000071727de22e5e9d8baf0edac6f37da032''"

definition LAUNCH_PATH_TAX_ADDRESS :: string where
  "LAUNCH_PATH_TAX_ADDRESS = ''0xc3538ddd84619e761b4c03caf2f785f79889958d''"

definition LAUNCH_PATH_ADDRESSES :: "string list" where
  "LAUNCH_PATH_ADDRESSES =
     [toLowerCase LAUNCH_PATH_NET_ADDRESS, toLowerCase LAUNCH_PATH_TAX_ADDRESS]"

definition is_launch_path :: "string \<Rightarrow> bool" where
  "is_launch_path a = (a \<in> set LAUNCH_PATH_ADDRESSES)"

definition hasLaunchPathTransfers :: "TxTransferGroup \<Rightarrow> bool" where
  "hasLaunchPathTransfers g =
     list_ex (\<lambda>v. is_launch_path (toLowerCase (t_from v)) \<or> is_launch_path (toLowerCase (t_to v)))
       (virtual g)"

text \<open>
  The loop state of \<open>inferLaunchPathBuyQuote\<close>: \<open>gross\<close>, \<open>netToPrimary\<close>,
  \<open>maxSingleRecipient\<close> and the map \<open>byRecipient\<close>.
\<close>

record buy_quote_acc =
  acc_gross :: int
  acc_netToPrimary :: int
  acc_maxSingleRecipient :: int
  acc_byRecipient :: "string \<rightharpoonup> int"

definition buy_quote_step :: "string \<Rightarrow> buy_quote_acc \<Rightarrow> ParsedTransfer \<Rightarrow> buy_quote_acc" where
  "buy_quote_step traderLower s v =
     (let fromLower = toLowerCase (t_from v); toLower = toLowerCase (t_to v)
      in if fromLower \<noteq> traderLower \<or> \<not> is_launch_path toLower then s
         else
           let nxt = (case acc_byRecipient s toLower of None \<Rightarrow> 0 | Some b \<Rightarrow> b) + t_value v
           in \<lparr> acc_gross = acc_gross s + t_value v,
                acc_netToPrimary =
                  (if toLower = toLowerCase LAUNCH_PATH_NET_ADDRESS
                   then acc_netToPrimary s + t_value v else acc_netToPrimary s),
                acc_maxSingleRecipient =
                  (if nxt > acc_maxSingleRecipient s then nxt else acc_maxSingleRecipient s),
                acc_byRecipient = (acc_byRecipient s)(toLower \<mapsto> nxt) \<rparr>)"

definition inferLaunchPathBuyQuote :: "TxTransferGroup \<Rightarrow> string \<Rightarrow> int \<times> int" where
  "inferLaunchPathBuyQuote g traderLower =
     (let s = foldl (buy_quote_step traderLower)
                \<lparr> acc_gross = 0, acc_netToPrimary = 0, acc_maxSingleRecipient = 0,
                  acc_byRecipient = Map.empty \<rparr> (virtual g);
          gross = acc_gross s;
          net0 = (if acc_netToPrimary s > 0 then acc_netToPrimary s else acc_maxSingleRecipient s);
          net1 = (if net0 \<le> 0 then gross else net0);
          net2 = (if net1 > gross then gross else net1)
      in (gross, net2))"

definition inferLaunchPathSellQuoteOut :: "TxTransferGroup \<Rightarrow> string \<Rightarrow> int" where
  "inferLaunchPathSellQuoteOut g traderLower =
     sum_list (map t_value
       (filter (\<lambda>v. toLowerCase (t_to v) = traderLower \<and> is_launch_path (toLowerCase (t_from v)))
          (virtual g)))"

section \<open>Trade reconstruction (trade-parser.ts)\<close>

datatype Side = BUY | SELL
datatype Venue = INTERNAL | EXTERNAL

text \<open>
  \<open>Trade\<close> of \<open>types.ts\<close>. The amounts are decimal strings of a \<open>bigint\<close> or
  \<open>null\<close>: here \<open>int option\<close>. \<open>priceQuotePerToken\<close> is a double in the code; the
  model keeps the exact quotient of the two integers, without rounding to a double.
\<close>

record Trade =
  projectId :: string
  venue :: Venue
  marketAddress :: string
  tr_txHash :: string
  tr_logIndex :: int
  tr_blockNumber :: int
  ts :: int
  trader :: string
  side :: Side
  quoteIn :: "int option"
  quoteInGross :: "int option"
  quoteOut :: "int option"
  tokenIn :: "int option"
  tokenOut :: "int option"
  priceQuotePerToken :: "rat option"

definition touches :: "string \<Rightarrow> ParsedTransfer \<Rightarrow> bool" where
  "touches m t = (toLowerCase (t_from t) = m \<or> toLowerCase (t_to t) = m)"

text \<open>
  \<open>txGroups\<close> is a JavaScript \<open>Map\<close>, iterated in insertion order: an association list
  in which \<open>AList.update\<close> replaces the value of a present key in place and appends a
  new key at the end.
\<close>

type_synonym tx_groups = "(string \<times> TxTransferGroup) list"

definition add_token :: "string \<Rightarrow> tx_groups \<Rightarrow> ParsedTransfer \<Rightarrow> tx_groups" where
  "add_token m gs t =
     (if touches m t then
        (let g = (case map_of gs (txHash t) of
                    None \<Rightarrow> \<lparr> token = [], virtual = [] \<rparr> | Some g \<Rightarrow> g)
         in AList.update (txHash t) (g\<lparr> token := token g @ [t] \<rparr>) gs)
      else gs)"

definition add_virtual :: "string \<Rightarrow> tx_groups \<Rightarrow> ParsedTransfer \<Rightarrow> tx_groups" where
  "add_virtual m gs v =
     (case map_of gs (txHash v) of
        Some g \<Rightarrow> AList.update (txHash v) (g\<lparr> virtual := virtual g @ [v] \<rparr>) gs
      | None \<Rightarrow>
          if touches m v then AList.update (txHash v) \<lparr> token = [], virtual = [v] \<rparr> gs
          else gs)"

definition group_transfers ::
  "string \<Rightarrow> ParsedTransfer list \<Rightarrow> ParsedTransfer list \<Rightarrow> tx_groups" where
  "group_transfers m tokenTransfers virtualTransfers =
     foldl (add_virtual m) (foldl (add_token m) [] tokenTransfers) virtualTransfers"

definition delta :: "string \<Rightarrow> ParsedTransfer list \<Rightarrow> int" where
  "delta m xs =
     foldl (\<lambda>d v. (let d1 = (if toLowerCase (t_to v) = m then d + t_value v else d)
                   in if toLowerCase (t_from v) = m then d1 - t_value v else d1)) 0 xs"

definition sum_where :: "(ParsedTransfer \<Rightarrow> bool) \<Rightarrow> ParsedTransfer list \<Rightarrow> int" where
  "sum_where P xs = foldl (\<lambda>s t. s + t_value t) 0 (filter P xs)"

record TradeCandidate =
  c_trader :: string
  c_side :: Side
  c_quoteIn :: "int option"
  c_quoteInGross :: "int option"
  c_quoteOut :: "int option"
  c_tokenIn :: "int option"
  c_tokenOut :: "int option"
  c_price :: "rat option"

text \<open>\<open>Number(a) / Number(b)\<close> for a positive \<open>b\<close>, as the exact quotient.\<close>

definition price_of :: "int \<Rightarrow> int \<Rightarrow> rat" where
  "price_of a b = of_int a / of_int b"

text \<open>\<open>x?.to || ''\<close> followed by the fallback \<open>y?.from || 'unknown'\<close> when the first is empty.\<close>

definition pick_trader :: "string option \<Rightarrow> string option \<Rightarrow> string" where
  "pick_trader first second =
     (let t = (case first of None \<Rightarrow> [] | Some a \<Rightarrow> a)
      in if t \<noteq> [] then t
         else (case second of None \<Rightarrow> ''unknown''
               | Some b \<Rightarrow> if b = [] then ''unknown'' else b))"

text \<open>
  One iteration of the loop over \<open>txGroups\<close>, up to the candidate: \<open>Inr None\<close> is a
  \<open>continue\<close> or a group that matches no branch, \<open>Inl\<close> is \<open>getAddress\<close> throwing.
\<close>

definition candidate_of_group :: "string \<Rightarrow> TxTransferGroup \<Rightarrow> error + TradeCandidate option" where
  "candidate_of_group m g =
    (let deltaVirtual = delta m (virtual g);
         deltaToken = delta m (token g)
     in
     if deltaVirtual = 0 \<and> deltaToken = 0 then Inr None
     else if deltaVirtual > 0 \<and> deltaToken < 0 then
       (let quoteInNet = deltaVirtual;
            tokenOutTotal = - deltaToken;
            gross0 = sum_where (\<lambda>v. toLowerCase (t_to v) = m) (virtual g);
            quoteInGross = (if gross0 < quoteInNet then quoteInNet else gross0);
            tr = pick_trader
                   (map_option t_to (find (\<lambda>t. toLowerCase (t_from t) = m) (token g)))
                   (map_option t_from (find (\<lambda>v. toLowerCase (t_to v) = m) (virtual g)));
            traderLower = toLowerCase tr;
            refine = (tr \<noteq> [] \<and> tr \<noteq> ''unknown'');
            tokenToTrader =
              sum_where (\<lambda>t. toLowerCase (t_from t) = m \<and> toLowerCase (t_to t) = traderLower) (token g);
            tokenOut = (if refine \<and> tokenToTrader > 0 then tokenToTrader else tokenOutTotal);
            virtualFromTraderToMarket =
              sum_where (\<lambda>v. toLowerCase (t_to v) = m \<and> toLowerCase (t_from v) = traderLower) (virtual g);
            virtualFromTraderTotal =
              sum_where (\<lambda>v. toLowerCase (t_from v) = traderLower) (virtual g);
            quoteInGrossTrader =
              (if refine \<and> virtualFromTraderTotal > 0 then virtualFromTraderTotal
               else if refine \<and> virtualFromTraderToMarket > 0 then virtualFromTraderToMarket
               else quoteInGross)
        in if tokenOut \<le> 0 then Inr None
           else case getAddress tr of
                  Inl e \<Rightarrow> Inl e
                | Inr a \<Rightarrow>
                    Inr (Some \<lparr> c_trader = a, c_side = BUY, c_quoteIn = Some quoteInNet,
                      c_quoteInGross = Some quoteInGrossTrader, c_quoteOut = None,
                      c_tokenIn = None, c_tokenOut = Some tokenOut,
                      c_price = Some (price_of quoteInNet tokenOut) \<rparr>))
     else if deltaToken > 0 \<and> deltaVirtual < 0 then
       (let tr = pick_trader
                   (map_option t_from (find (\<lambda>t. toLowerCase (t_to t) = m) (token g)))
                   (map_option t_to (find (\<lambda>v. toLowerCase (t_from v) = m) (virtual g)));
            traderLower = toLowerCase tr;
            refine = (tr \<noteq> [] \<and> tr \<noteq> ''unknown'');
            tokenFromTrader =
              sum_where (\<lambda>t. toLowerCase (t_to t) = m \<and> toLowerCase (t_from t) = traderLower) (token g);
            tokenIn = (if refine \<and> tokenFromTrader > 0 then tokenFromTrader else deltaToken);
            virtualToTrader =
              sum_where (\<lambda>v. toLowerCase (t_from v) = m \<and> toLowerCase (t_to v) = traderLower) (virtual g);
            quoteOut = (if refine \<and> virtualToTrader > 0 then virtualToTrader else - deltaVirtual)
        in if tokenIn \<le> 0 \<or> quoteOut \<le> 0 then Inr None
           else case getAddress tr of
                  Inl e \<Rightarrow> Inl e
                | Inr a \<Rightarrow>
                    Inr (Some \<lparr> c_trader = a, c_side = SELL, c_quoteIn = None,
                      c_quoteInGross = None, c_quoteOut = Some quoteOut,
                      c_tokenIn = Some tokenIn, c_tokenOut = None,
                      c_price = Some (price_of quoteOut tokenIn) \<rparr>))
     else if deltaToken > 0 \<and> hasLaunchPathTransfers g then
       (let tr = (case find (\<lambda>t. toLowerCase (t_to t) = m) (token g) of
                    None \<Rightarrow> [] | Some t \<Rightarrow> t_from t)
        in if tr = [] then Inr None
           else
             let traderLower = toLowerCase tr;
                 tokenIn =
                   sum_where (\<lambda>t. toLowerCase (t_to t) = m \<and> toLowerCase (t_from t) = traderLower)
                     (token g)
             in if tokenIn \<le> 0 then Inr None
                else
                  let quoteOut = inferLaunchPathSellQuoteOut g traderLower
                  in if quoteOut \<le> 0 then Inr None
                     else case getAddress tr of
                            Inl e \<Rightarrow> Inl e
                          | Inr a \<Rightarrow>
                              Inr (Some \<lparr> c_trader = a, c_side = SELL, c_quoteIn = None,
                                c_quoteInGross = None, c_quoteOut = Some quoteOut,
                                c_tokenIn = Some tokenIn, c_tokenOut = None,
                                c_price = Some (price_of quoteOut tokenIn) \<rparr>))
     else if deltaToken < 0 then
       (let tr = (case find (\<lambda>t. toLowerCase (t_from t) = m) (token g) of
                    None \<Rightarrow> [] | Some t \<Rightarrow> t_to t)
        in if tr = [] then Inr None
           else
             let traderLower = toLowerCase tr;
                 tokenOut =
                   sum_where (\<lambda>t. toLowerCase (t_from t) = m \<and> toLowerCase (t_to t) = traderLower)
                     (token g)
             in if tokenOut \<le> 0 then Inr None
                else
                  let gross0 = sum_where (\<lambda>v. toLowerCase (t_from v) = traderLower) (virtual g);
                      useLaunch = (gross0 \<le> 0 \<and> hasLaunchPathTransfers g);
                      inferred = inferLaunchPathBuyQuote g traderLower;
                      quoteInGross = (if useLaunch then fst inferred else gross0);
                      quoteInNetFallback = (if useLaunch then snd inferred else gross0)
                  in if quoteInGross \<le> 0 then Inr None
                     else
                       let net0 = (if deltaVirtual > 0 then deltaVirtual else quoteInNetFallback);
                           net1 = (if net0 \<le> 0 then quoteInGross else net0);
                           quoteInNet = (if net1 > quoteInGross then quoteInGross else net1)
                       in case getAddress tr of
                            Inl e \<Rightarrow> Inl e
                          | Inr a \<Rightarrow>
                              Inr (Some \<lparr> c_trader = a, c_side = BUY, c_quoteIn = Some quoteInNet,
                                c_quoteInGross = Some quoteInGross, c_quoteOut = None,
                                c_tokenIn = None, c_tokenOut = Some tokenOut,
                                c_price = Some (price_of quoteInNet tokenOut) \<rparr>))
     else Inr None)"

text \<open>
  \<open>Math.min\<close> over the log indices of the group and \<open>allLogs[0]?.blockNumber || 0\<close>.
  A group is created together with its first transfer, so the list is not empty.
\<close>

definition minLogIndex :: "ParsedTransfer list \<Rightarrow> int" where
  "minLogIndex allLogs = Min (set (map logIndex allLogs))"

definition first_blockNumber :: "ParsedTransfer list \<Rightarrow> int" where
  "first_blockNumber allLogs = (case allLogs of [] \<Rightarrow> 0 | l # _ \<Rightarrow> blockNumber l)"

definition trade_of_candidate ::
  "string \<Rightarrow> Venue \<Rightarrow> string \<Rightarrow> int \<Rightarrow> string \<Rightarrow> TxTransferGroup \<Rightarrow> TradeCandidate \<Rightarrow> Trade" where
  "trade_of_candidate pid ven market blockTimestamp h g c =
     (let allLogs = token g @ virtual g
      in \<lparr> projectId = pid, venue = ven, marketAddress = market, tr_txHash = h,
           tr_logIndex = minLogIndex allLogs, tr_blockNumber = first_blockNumber allLogs,
           ts = blockTimestamp, trader = c_trader c, side = c_side c,
           quoteIn = c_quoteIn c, quoteInGross = c_quoteInGross c, quoteOut = c_quoteOut c,
           tokenIn = c_tokenIn c, tokenOut = c_tokenOut c, priceQuotePerToken = c_price c \<rparr>)"

fun trades_of_groups ::
  "string \<Rightarrow> string \<Rightarrow> Venue \<Rightarrow> string \<Rightarrow> int \<Rightarrow> tx_groups \<Rightarrow> error + Trade list" where
  "trades_of_groups m pid ven market blockTimestamp [] = Inr []"
| "trades_of_groups m pid ven market blockTimestamp ((h, g) # gs) =
     (case candidate_of_group m g of
        Inl e \<Rightarrow> Inl e
      | Inr co \<Rightarrow>
          (case trades_of_groups m pid ven market blockTimestamp gs of
             Inl e \<Rightarrow> Inl e
           | Inr rest \<Rightarrow>
               (case co of
                  None \<Rightarrow> Inr rest
                | Some c \<Rightarrow> Inr (trade_of_candidate pid ven market blockTimestamp h g c # rest))))"

definition reconstructTrades ::
  "ParsedTransfer list \<Rightarrow> ParsedTransfer list \<Rightarrow> string \<Rightarrow> string \<Rightarrow> string \<Rightarrow> Venue \<Rightarrow> int
     \<Rightarrow> error + Trade list" where
  "reconstructTrades tokenTransfers virtualTransfers marketAddr tokenAddr pid ven blockTimestamp =
     (case getAddress marketAddr of
        Inl e \<Rightarrow> Inl e
      | Inr market \<Rightarrow>
          (case getAddress tokenAddr of
             Inl e \<Rightarrow> Inl e
           | Inr _ \<Rightarrow>
               (case getAddress VIRTUAL_ADDRESS of
                  Inl e \<Rightarrow> Inl e
                | Inr _ \<Rightarrow>
                    trades_of_groups (toLowerCase market) pid ven market blockTimestamp
                      (group_transfers (toLowerCase market) tokenTransfers virtualTransfers))))"


section \<open>JavaScript numbers and bigint division\<close>

text \<open>
  A JavaScript \<open>number\<close> is modelled by its exact value: a rational, the two infinities
  or \<open>NaN\<close>. Rounding to a double and the sign of zero are not modelled (a zero divisor
  is taken as \<open>+0\<close>, which is what \<open>Number\<close> of a \<open>bigint\<close> gives).
\<close>

datatype jsnum = Fin rat | PosInf | NegInf | NaN

definition Number :: "int \<Rightarrow> jsnum" where
  "Number n = Fin (of_int n)"

fun js_div :: "jsnum \<Rightarrow> jsnum \<Rightarrow> jsnum" where
  "js_div (Fin a) (Fin b) =
     (if b = 0 then (if a > 0 then PosInf else if a < 0 then NegInf else NaN) else Fin (a / b))"
| "js_div (Fin a) PosInf = Fin 0"
| "js_div (Fin a) NegInf = Fin 0"
| "js_div PosInf (Fin b) = (if b < 0 then NegInf else PosInf)"
| "js_div NegInf (Fin b) = (if b < 0 then PosInf else NegInf)"
| "js_div _ _ = NaN"

fun js_mul :: "jsnum \<Rightarrow> jsnum \<Rightarrow> jsnum" where
  "js_mul (Fin a) (Fin b) = Fin (a * b)"
| "js_mul (Fin a) PosInf = (if a = 0 then NaN else if a > 0 then PosInf else NegInf)"
| "js_mul (Fin a) NegInf = (if a = 0 then NaN else if a > 0 then NegInf else PosInf)"
| "js_mul PosInf (Fin b) = (if b = 0 then NaN else if b > 0 then PosInf else NegInf)"
| "js_mul NegInf (Fin b) = (if b = 0 then NaN else if b > 0 then NegInf else PosInf)"
| "js_mul PosInf PosInf = PosInf"
| "js_mul PosInf NegInf = NegInf"
| "js_mul NegInf PosInf = NegInf"
| "js_mul NegInf NegInf = PosInf"
| "js_mul _ _ = NaN"

fun js_sub :: "jsnum \<Rightarrow> jsnum \<Rightarrow> jsnum" where
  "js_sub (Fin a) (Fin b) = Fin (a - b)"
| "js_sub (Fin a) PosInf = NegInf"
| "js_sub (Fin a) NegInf = PosInf"
| "js_sub PosInf (Fin b) = PosInf"
| "js_sub NegInf (Fin b) = NegInf"
| "js_sub PosInf NegInf = PosInf"
| "js_sub NegInf PosInf = NegInf"
| "js_sub _ _ = NaN"

text \<open>The comparisons \<open>a > b\<close> and \<open>a <= b\<close>: both are false when a side is \<open>NaN\<close>.\<close>

fun js_gt :: "jsnum \<Rightarrow> jsnum \<Rightarrow> bool" where
  "js_gt (Fin a) (Fin b) = (a > b)"
| "js_gt (Fin a) NegInf = True"
| "js_gt PosInf (Fin b) = True"
| "js_gt PosInf NegInf = True"
| "js_gt _ _ = False"

fun js_le :: "jsnum \<Rightarrow> jsnum \<Rightarrow> bool" where
  "js_le NaN _ = False"
| "js_le _ NaN = False"
| "js_le a b = (\<not> js_gt a b)"

fun isFinite :: "jsnum \<Rightarrow> bool" where
  "isFinite (Fin a) = True"
| "isFinite _ = False"

text \<open>
  \<open>a / b\<close> and \<open>a % b\<close> on \<open>bigint\<close> truncate towards zero and throw a
  \<open>RangeError\<close> on a zero divisor.
\<close>

definition bigint_div :: "int \<Rightarrow> int \<Rightarrow> error + int" where
  "bigint_div a b = (if b = 0 then Inl RangeError else Inr (a sdiv b))"

definition bigint_mod :: "int \<Rightarrow> int \<Rightarrow> error + int" where
  "bigint_mod a b = (if b = 0 then Inl RangeError else Inr (a smod b))"

section \<open>AMM simulator (buyback and dump)\<close>

datatype Mode = IDEAL | REALISTIC
datatype PriceAnchor = SPOT | RESERVE

record Assumptions =
  noExternalSells :: bool
  useCurrentLpReserves :: bool
  as_mode :: Mode
  sellPressureBpsPerStep :: int
  priceAnchor :: PriceAnchor
  as_spotPriceAnchor :: "jsnum option"

text \<open>
  A point of the price trajectory. The code formats the elapsed time for display
  (\<open>45s\<close>, \<open>2m30s\<close>, \<open>1.5h\<close>); the model keeps the number of seconds.
\<close>

record TrajectoryPoint =
  tp_step :: int
  tp_price :: jsnum
  tp_tokensBought :: int
  tp_elapsedSeconds :: jsnum

record BuybackSimulation =
  bs_budget :: int
  bs_amountPerStep :: int
  bs_remainderAmount :: int
  bs_steps :: int
  bs_stepIntervalSeconds :: jsnum
  bs_totalTokensBought :: int
  bs_avgPrice :: jsnum
  bs_maxSlippage :: jsnum
  bs_initialPrice :: jsnum
  bs_priceTrajectory :: "TrajectoryPoint list"
  bs_finalPrice :: jsnum
  bs_priceImpactPercent :: jsnum
  bs_reserveVirtual :: int
  bs_reserveToken :: int
  bs_assumptions :: Assumptions

text \<open>The variables the loop of \<open>simulateBuyback\<close> updates, and the ones it only reads.\<close>

record loop_state =
  st_reserveVirtual :: int
  st_reserveToken :: int
  st_totalTokensBought :: int
  st_totalSpent :: int
  st_maxSlippage :: jsnum
  st_trajectory :: "TrajectoryPoint list"

record loop_env =
  e_steps :: int
  e_remainderAmount :: int
  e_amountPerStep :: int
  e_sellPressureBps :: int
  e_initialPriceRaw :: jsnum
  e_shouldAnchor :: bool
  e_priceScale :: jsnum
  e_stepIntervalSeconds :: jsnum

text \<open>The realistic-mode sell pressure applied to the reserves after a buy.\<close>

definition sell_pressure :: "int \<Rightarrow> int \<Rightarrow> int \<Rightarrow> int \<Rightarrow> error + int \<times> int" where
  "sell_pressure bps rv rt out =
     (if bps > 0 \<and> out > 0 then
        (let sellIn = (out * bps) sdiv 10000
         in if sellIn > 0 then
              (let kAfterBuy = rv * rt; postSellReserveToken = rt + sellIn
               in case bigint_div kAfterBuy postSellReserveToken of
                    Inl e \<Rightarrow> Inl e
                  | Inr postSellReserveVirtual \<Rightarrow> Inr (postSellReserveVirtual, postSellReserveToken))
            else Inr (rv, rt))
      else Inr (rv, rt))"

text \<open>The reserve-implied price \<open>Number(reserveVirtual) / Number(reserveToken)\<close>.\<close>

definition reserve_price :: "int \<Rightarrow> int \<Rightarrow> jsnum" where
  "reserve_price rv rt = js_div (Number rv) (Number rt)"

text \<open>The amount bought at index \<open>i\<close>: the remainder at the last index when there is one.\<close>

definition step_amount :: "loop_env \<Rightarrow> nat \<Rightarrow> int" where
  "step_amount env i =
     (if int i = e_steps env - 1 \<and> e_remainderAmount env > 0
      then e_remainderAmount env else e_amountPerStep env)"

text \<open>The body of the loop for index \<open>i\<close>; a \<open>continue\<close> returns the state unchanged.\<close>

definition buyback_iter :: "loop_env \<Rightarrow> loop_state \<Rightarrow> nat \<Rightarrow> error + loop_state" where
  "buyback_iter env s i =
     (let buyAmount = step_amount env i;
          k = st_reserveVirtual s * st_reserveToken s;
          newReserveVirtual = st_reserveVirtual s + buyAmount
      in case bigint_div k newReserveVirtual of
           Inl e \<Rightarrow> Inl e
         | Inr newReserveToken \<Rightarrow>
             (let tokenOut = st_reserveToken s - newReserveToken
              in if tokenOut \<le> 0 then Inr s
                 else
                   case sell_pressure (e_sellPressureBps env) newReserveVirtual newReserveToken
                          tokenOut of
                     Inl e \<Rightarrow> Inl e
                   | Inr (rv, rt) \<Rightarrow>
                       (let currentPriceRaw = reserve_price rv rt;
                            currentPrice = js_mul currentPriceRaw (e_priceScale env);
                            slippage =
                              js_div (js_sub currentPriceRaw (e_initialPriceRaw env))
                                (e_initialPriceRaw env);
                            elapsedSeconds =
                              js_mul (Number (int i + 1)) (e_stepIntervalSeconds env)
                        in Inr \<lparr> st_reserveVirtual = rv, st_reserveToken = rt,
                                 st_totalTokensBought = st_totalTokensBought s + tokenOut,
                                 st_totalSpent = st_totalSpent s + buyAmount,
                                 st_maxSlippage =
                                   (if js_gt slippage (st_maxSlippage s) then slippage
                                    else st_maxSlippage s),
                                 st_trajectory = st_trajectory s @
                                   [\<lparr> tp_step = int i + 1, tp_price = currentPrice,
                                      tp_tokensBought = tokenOut,
                                      tp_elapsedSeconds = elapsedSeconds \<rparr>] \<rparr>)))"

fun buyback_loop :: "loop_env \<Rightarrow> loop_state \<Rightarrow> nat list \<Rightarrow> error + loop_state" where
  "buyback_loop env s [] = Inr s"
| "buyback_loop env s (i # rest) =
     (case buyback_iter env s i of
        Inl e \<Rightarrow> Inl e
      | Inr s' \<Rightarrow> buyback_loop env s' rest)"

definition sellPressure_of :: "Mode \<Rightarrow> int" where
  "sellPressure_of m = (if m = REALISTIC then 3000 else 0)"

text \<open>
  The constants computed before the loop and the initial loop state. \<open>steps\<close> is a
  \<open>bigint\<close> converted to a number; the model keeps the integer.
\<close>

definition buyback_env ::
  "int \<Rightarrow> int \<Rightarrow> bool \<Rightarrow> int \<Rightarrow> int \<Rightarrow> jsnum \<Rightarrow> Mode \<Rightarrow> jsnum option \<Rightarrow> error + loop_env" where
  "buyback_env reserve0 reserve1 isToken0 amountPerStep totalTaxInput stepInterval m anchor =
     (let reserveVirtual = (if isToken0 then reserve1 else reserve0);
          reserveToken = (if isToken0 then reserve0 else reserve1)
      in case bigint_div totalTaxInput amountPerStep of
           Inl e \<Rightarrow> Inl e
         | Inr fullSteps \<Rightarrow>
             (case bigint_mod totalTaxInput amountPerStep of
                Inl e \<Rightarrow> Inl e
              | Inr remainderAmount \<Rightarrow>
                  (let initialPriceRaw = reserve_price reserveVirtual reserveToken;
                       shouldAnchor =
                         (case anchor of
                            None \<Rightarrow> False
                          | Some a \<Rightarrow> isFinite a \<and> js_gt a (Fin 0) \<and> js_gt initialPriceRaw (Fin 0));
                       priceScale =
                         (case anchor of
                            None \<Rightarrow> Fin 1
                          | Some a \<Rightarrow> if shouldAnchor then js_div a initialPriceRaw else Fin 1)
                   in Inr \<lparr> e_steps = fullSteps + (if remainderAmount > 0 then 1 else 0),
                            e_remainderAmount = remainderAmount,
                            e_amountPerStep = amountPerStep,
                            e_sellPressureBps = sellPressure_of m,
                            e_initialPriceRaw = initialPriceRaw,
                            e_shouldAnchor = shouldAnchor,
                            e_priceScale = priceScale,
                            e_stepIntervalSeconds = stepInterval \<rparr>)))"

definition buyback_init :: "int \<Rightarrow> int \<Rightarrow> bool \<Rightarrow> loop_state" where
  "buyback_init reserve0 reserve1 isToken0 =
     \<lparr> st_reserveVirtual = (if isToken0 then reserve1 else reserve0),
       st_reserveToken = (if isToken0 then reserve0 else reserve1),
       st_totalTokensBought = 0, st_totalSpent = 0, st_maxSlippage = Fin 0,
       st_trajectory = [] \<rparr>"

definition simulateBuyback ::
  "int \<Rightarrow> int \<Rightarrow> bool \<Rightarrow> int \<Rightarrow> int \<Rightarrow> jsnum \<Rightarrow> Mode \<Rightarrow> jsnum option
     \<Rightarrow> error + BuybackSimulation" where
  "simulateBuyback reserve0 reserve1 isToken0 amountPerStep totalTaxInput stepInterval m anchor =
     (if amountPerStep = 0 \<or> totalTaxInput = 0 \<or> reserve0 = 0 \<or> reserve1 = 0 then
        Inr \<lparr> bs_budget = 0, bs_amountPerStep = amountPerStep, bs_remainderAmount = 0,
              bs_steps = 0, bs_stepIntervalSeconds = stepInterval, bs_totalTokensBought = 0,
              bs_avgPrice = Fin 0, bs_maxSlippage = Fin 0, bs_initialPrice = Fin 0,
              bs_priceTrajectory = [], bs_finalPrice = Fin 0, bs_priceImpactPercent = Fin 0,
              bs_reserveVirtual = 0, bs_reserveToken = 0,
              bs_assumptions =
                \<lparr> noExternalSells = (m = IDEAL), useCurrentLpReserves = True, as_mode = m,
                  sellPressureBpsPerStep = sellPressure_of m, priceAnchor = RESERVE,
                  as_spotPriceAnchor = None \<rparr> \<rparr>
      else
        case buyback_env reserve0 reserve1 isToken0 amountPerStep totalTaxInput stepInterval
               m anchor of
          Inl e \<Rightarrow> Inl e
        | Inr env \<Rightarrow>
            (case buyback_loop env (buyback_init reserve0 reserve1 isToken0)
                    [0 ..< nat (e_steps env)] of
               Inl e \<Rightarrow> Inl e
             | Inr s \<Rightarrow>
                 (let finalPriceRaw = reserve_price (st_reserveVirtual s) (st_reserveToken s);
                      avgPriceRaw =
                        (if st_totalTokensBought s > 0
                         then js_div (Number (st_totalSpent s)) (Number (st_totalTokensBought s))
                         else Fin 0);
                      shouldAnchor = e_shouldAnchor env
                  in Inr \<lparr> bs_budget = st_totalSpent s, bs_amountPerStep = amountPerStep,
                           bs_remainderAmount = e_remainderAmount env, bs_steps = e_steps env,
                           bs_stepIntervalSeconds = stepInterval,
                           bs_totalTokensBought = st_totalTokensBought s,
                           bs_avgPrice = js_mul avgPriceRaw (e_priceScale env),
                           bs_maxSlippage = st_maxSlippage s,
                           bs_initialPrice = js_mul (e_initialPriceRaw env) (e_priceScale env),
                           bs_priceTrajectory = st_trajectory s,
                           bs_finalPrice = js_mul finalPriceRaw (e_priceScale env),
                           bs_priceImpactPercent =
                             (if js_gt (e_initialPriceRaw env) (Fin 0)
                              then js_mul
                                     (js_div (js_sub finalPriceRaw (e_initialPriceRaw env))
                                        (e_initialPriceRaw env)) (Fin 100)
                              else Fin 0),
                           bs_reserveVirtual = st_reserveVirtual s,
                           bs_reserveToken = st_reserveToken s,
                           bs_assumptions =
                             \<lparr> noExternalSells = (m = IDEAL), useCurrentLpReserves = True,
                               as_mode = m, sellPressureBpsPerStep = sellPressure_of m,
                               priceAnchor = (if shouldAnchor then SPOT else RESERVE),
                               as_spotPriceAnchor = (if shouldAnchor then anchor else None) \<rparr> \<rparr>)))"

record DumpSimulationResult =
  ds_reserveVirtual :: int
  ds_reserveToken :: int
  ds_sellAmountToken :: int
  ds_virtualOut :: int
  ds_initialPrice :: jsnum
  ds_finalPrice :: jsnum
  ds_priceImpactPercent :: jsnum
  ds_requiredBuybackVirtual :: int

definition simulateDump :: "int \<Rightarrow> int \<Rightarrow> int \<Rightarrow> error + DumpSimulationResult" where
  "simulateDump reserveVirtual reserveToken sellAmountToken =
     (if reserveVirtual \<le> 0 \<or> reserveToken \<le> 0 \<or> sellAmountToken \<le> 0 then
        Inr \<lparr> ds_reserveVirtual = reserveVirtual, ds_reserveToken = reserveToken,
              ds_sellAmountToken = sellAmountToken, ds_virtualOut = 0,
              ds_initialPrice = Fin 0, ds_finalPrice = Fin 0, ds_priceImpactPercent = Fin 0,
              ds_requiredBuybackVirtual = 0 \<rparr>
      else
        (let k = reserveVirtual * reserveToken;
             newReserveToken = reserveToken + sellAmountToken
         in case bigint_div k newReserveToken of
              Inl e \<Rightarrow> Inl e
            | Inr newReserveVirtual \<Rightarrow>
                (let virtualOut =
                       (if reserveVirtual > newReserveVirtual
                        then reserveVirtual - newReserveVirtual else 0);
                     initialPrice = reserve_price reserveVirtual reserveToken;
                     finalPrice = reserve_price newReserveVirtual newReserveToken;
                     priceImpactPercent =
                       (if js_gt initialPrice (Fin 0)
                        then js_mul (js_div (js_sub finalPrice initialPrice) initialPrice) (Fin 100)
                        else Fin 0);
                     requiredBuybackVirtual =
                       (if newReserveVirtual < reserveVirtual
                        then reserveVirtual - newReserveVirtual else 0)
                 in Inr \<lparr> ds_reserveVirtual = reserveVirtual, ds_reserveToken = reserveToken,
                          ds_sellAmountToken = sellAmountToken, ds_virtualOut = virtualOut,
                          ds_initialPrice = initialPrice, ds_finalPrice = finalPrice,
                          ds_priceImpactPercent = priceImpactPercent,
                          ds_requiredBuybackVirtual = requiredBuybackVirtual \<rparr>)))"

section \<open>Graduation detector (graduation.ts)\<close>

record GraduationResult =
  graduated :: bool
  pairAddress :: "string option"
  gr_token0 :: "string option"
  gr_token1 :: "string option"

text \<open>
  What the chain answers to the reads \<open>checkGraduation\<close> makes: \<open>uniswapV2Pair()\<close> on
  the token, then \<open>getCode\<close>, \<open>token0()\<close>, \<open>token1()\<close> and \<open>getReserves()\<close> on the
  pair. \<open>Inl\<close> is a read that throws (a missing function, a revert, a transport error).
\<close>

record graduation_reads =
  rd_uniswapV2Pair :: "error + string"
  rd_getCode :: "error + string option"
  rd_token0 :: "error + string"
  rd_token1 :: "error + string"
  rd_getReserves :: "error + int \<times> int \<times> int"

definition ZERO_ADDRESS :: string where
  "ZERO_ADDRESS = ''0x0000000000000000000000000000000000000000''"

text \<open>\<open>isContract\<close> of \<open>chain/utils.ts\<close>: \<open>!!code && code !== '0x'\<close>.\<close>

definition isContract :: "error + string option \<Rightarrow> error + bool" where
  "isContract code =
     (case code of
        Inl e \<Rightarrow> Inl e
      | Inr None \<Rightarrow> Inr False
      | Inr (Some c) \<Rightarrow> Inr (c \<noteq> [] \<and> c \<noteq> ''0x''))"

definition not_graduated :: GraduationResult where
  "not_graduated = \<lparr> graduated = False, pairAddress = None, gr_token0 = None, gr_token1 = None \<rparr>"

text \<open>Every throw inside the \<open>try\<close> block ends in the \<open>catch\<close>, which returns \<open>not_graduated\<close>.\<close>

definition checkGraduation :: "graduation_reads \<Rightarrow> GraduationResult" where
  "checkGraduation rd =
     (case rd_uniswapV2Pair rd of
        Inl e \<Rightarrow> not_graduated
      | Inr pair \<Rightarrow>
          if pair = [] \<or> pair = ZERO_ADDRESS then not_graduated
          else
            (case isContract (rd_getCode rd) of
               Inl e \<Rightarrow> not_graduated
             | Inr hasCode \<Rightarrow>
                 if \<not> hasCode then not_graduated
                 else
                   (case (rd_token0 rd, rd_token1 rd, rd_getReserves rd) of
                      (Inr t0, Inr t1, Inr (reserve0, reserve1, stamp)) \<Rightarrow>
                        (case (getAddress pair, getAddress t0, getAddress t1) of
                           (Inr p, Inr a0, Inr a1) \<Rightarrow>
                             if reserve0 = 0 \<and> reserve1 = 0 then
                               \<lparr> graduated = False, pairAddress = Some p,
                                 gr_token0 = Some a0, gr_token1 = Some a1 \<rparr>
                             else
                               \<lparr> graduated = True, pairAddress = Some p,
                                 gr_token0 = Some a0, gr_token1 = Some a1 \<rparr>
                         | _ \<Rightarrow> not_graduated)
                    | _ \<Rightarrow> not_graduated)))"

section \<open>Tax inflow extractor (tax-tracker.ts)\<close>

record TaxInflow =
  ti_projectId :: string
  ti_txHash :: string
  ti_blockNumber :: int
  ti_ts :: int
  ti_token :: string
  ti_amount :: int
  ti_logIndex :: int

text \<open>
  \<open>tokenByTx\<close> and \<open>virtualByTx\<close>: maps from transaction hash to the transfers of the
  transaction, in insertion order.
\<close>

definition add_by_tx ::
  "(string \<times> ParsedTransfer list) list \<Rightarrow> ParsedTransfer \<Rightarrow> (string \<times> ParsedTransfer list) list" where
  "add_by_tx m t =
     AList.update (txHash t)
       ((case map_of m (txHash t) of None \<Rightarrow> [] | Some xs \<Rightarrow> xs) @ [t]) m"

definition by_tx :: "ParsedTransfer list \<Rightarrow> (string \<times> ParsedTransfer list) list" where
  "by_tx xs = foldl add_by_tx [] xs"

text \<open>
  The BUY proxy: the first element of the transfers sorted by descending value. The sort
  is stable, so among transfers of the largest value the earliest one is taken.
\<close>

definition buy_proxy :: "ParsedTransfer list \<Rightarrow> ParsedTransfer option" where
  "buy_proxy txTokenTransfers =
     (case sort_key (\<lambda>t. - t_value t) txTokenTransfers of [] \<Rightarrow> None | t # _ \<Rightarrow> Some t)"

definition is_main_buy_leg :: "string \<Rightarrow> string \<Rightarrow> ParsedTransfer \<Rightarrow> bool" where
  "is_main_buy_leg traderLower marketLower v =
     (toLowerCase (t_from v) = traderLower \<and> toLowerCase (t_to v) = marketLower \<and> t_value v > 0)"

definition is_split_leg :: "string \<Rightarrow> string \<Rightarrow> string \<Rightarrow> ParsedTransfer \<Rightarrow> bool" where
  "is_split_leg traderLower marketLower normalizedRecipient v =
     (toLowerCase (t_from v) = traderLower \<and> toLowerCase (t_to v) \<noteq> marketLower \<and>
      toLowerCase (t_to v) \<noteq> normalizedRecipient \<and> t_value v > 0)"

text \<open>
  The quote legs the split-tax rule records for one transaction, given its token
  transfers and its quote transfers: the empty list stands for each \<open>continue\<close>.
\<close>

definition split_legs ::
  "string \<Rightarrow> ParsedTransfer list \<Rightarrow> ParsedTransfer list \<Rightarrow> ParsedTransfer list" where
  "split_legs normalizedRecipient txTokenTransfers txVirtual =
     (if txVirtual = [] then []
      else
        case buy_proxy txTokenTransfers of
          None \<Rightarrow> []
        | Some proxy \<Rightarrow>
            (let marketLower = toLowerCase (t_from proxy);
                 traderLower = toLowerCase (t_to proxy)
             in if \<not> list_ex (is_main_buy_leg traderLower marketLower) txVirtual then []
                else filter (is_split_leg traderLower marketLower normalizedRecipient) txVirtual))"

definition virtual_inflow :: "string \<Rightarrow> int \<Rightarrow> ParsedTransfer \<Rightarrow> TaxInflow" where
  "virtual_inflow pid blockTimestamp v =
     \<lparr> ti_projectId = pid, ti_txHash = txHash v, ti_blockNumber = blockNumber v,
       ti_ts = blockTimestamp, ti_token = VIRTUAL_ADDRESS, ti_amount = t_value v,
       ti_logIndex = logIndex v \<rparr>"

definition token_inflow :: "string \<Rightarrow> int \<Rightarrow> ParsedTransfer \<Rightarrow> TaxInflow" where
  "token_inflow pid blockTimestamp t =
     \<lparr> ti_projectId = pid, ti_txHash = txHash t, ti_blockNumber = blockNumber t,
       ti_ts = blockTimestamp, ti_token = t_address t, ti_amount = t_value t,
       ti_logIndex = logIndex t \<rparr>"

text \<open>
  The state of the first loop: \<open>specialSplitTaxTx\<close>, \<open>consumedVirtualLogKeys\<close> (a log
  key \<open>txHash:logIndex\<close> is the pair) and the inflows pushed so far.
\<close>

record split_state =
  specialSplitTaxTx :: "string list"
  consumedVirtualLogKeys :: "(string \<times> int) list"
  split_inflows :: "TaxInflow list"

definition split_step ::
  "string \<Rightarrow> string \<Rightarrow> int \<Rightarrow> (string \<times> ParsedTransfer list) list \<Rightarrow> split_state
     \<Rightarrow> string \<times> ParsedTransfer list \<Rightarrow> split_state" where
  "split_step normalizedRecipient pid blockTimestamp virtualByTx s entry =
     (let txVirtual = (case map_of virtualByTx (fst entry) of None \<Rightarrow> [] | Some vs \<Rightarrow> vs);
          legs = split_legs normalizedRecipient (snd entry) txVirtual
      in if legs = [] then s
         else \<lparr> specialSplitTaxTx = specialSplitTaxTx s @ [fst entry],
                consumedVirtualLogKeys =
                  consumedVirtualLogKeys s @ map (\<lambda>v. (txHash v, logIndex v)) legs,
                split_inflows = split_inflows s @ map (virtual_inflow pid blockTimestamp) legs \<rparr>)"

text \<open>The first loop of \<open>extractTaxInflows\<close>, over the entries of \<open>tokenByTx\<close>.\<close>

definition split_rule ::
  "string \<Rightarrow> string \<Rightarrow> int \<Rightarrow> ParsedTransfer list \<Rightarrow> ParsedTransfer list \<Rightarrow> split_state" where
  "split_rule normalizedRecipient pid blockTimestamp tokenTransfers virtualTransfers =
     foldl (split_step normalizedRecipient pid blockTimestamp (by_tx virtualTransfers))
       \<lparr> specialSplitTaxTx = [], consumedVirtualLogKeys = [], split_inflows = [] \<rparr>
       (by_tx tokenTransfers)"

definition extractTaxInflows ::
  "ParsedTransfer list \<Rightarrow> ParsedTransfer list \<Rightarrow> string \<Rightarrow> string \<Rightarrow> int
     \<Rightarrow> error + TaxInflow list" where
  "extractTaxInflows tokenTransfers virtualTransfers taxRecipient pid blockTimestamp =
     (case getAddress taxRecipient of
        Inl e \<Rightarrow> Inl e
      | Inr r \<Rightarrow>
          (let normalizedRecipient = toLowerCase r;
               tokenTxHashes = map txHash tokenTransfers;
               s = split_rule normalizedRecipient pid blockTimestamp tokenTransfers virtualTransfers;
               tokenTax =
                 map (token_inflow pid blockTimestamp)
                   (filter (\<lambda>t. toLowerCase (t_to t) = normalizedRecipient) tokenTransfers);
               virtualTax =
                 map (virtual_inflow pid blockTimestamp)
                   (filter (\<lambda>v. (txHash v, logIndex v) \<notin> set (consumedVirtualLogKeys s) \<and>
                               txHash v \<notin> set (specialSplitTaxTx s) \<and>
                               toLowerCase (t_to v) = normalizedRecipient \<and>
                               txHash v \<in> set tokenTxHashes) virtualTransfers)
           in Inr (split_inflows s @ tokenTax @ virtualTax)))"

section \<open>Cost ledger (metrics/address-cost.ts, metrics/cost-summary.ts)\<close>

text \<open>
  A row of \<open>address_costs\<close>. The amount columns are decimal strings of a \<open>bigint\<close>,
  never empty (\<open>NOT NULL DEFAULT '0'\<close>, and every write is a \<open>toString()\<close>): here
  \<open>int\<close>. \<open>spentQuoteGross\<close> is the net spend (legacy name), \<open>spentQuoteGrossActual\<close>
  the gross spend.
\<close>

record AddressCostRow =
  ac_projectId :: string
  ac_address :: string
  spentQuoteGross :: int
  spentQuoteGrossActual :: int
  tokensReceived :: int
  tokensSold :: int
  quoteReceived :: int
  avgCost :: "jsnum option"
  avgCostGross :: "jsnum option"
  lastUpdatedBlock :: "int option"

text \<open>
  The table, unique on (project, address), in row order: an insert appends, an update
  replaces the row in place.
\<close>

type_synonym cost_table = "((string \<times> string) \<times> AddressCostRow) list"

definition avg_of :: "int \<Rightarrow> int \<Rightarrow> jsnum option" where
  "avg_of spent received =
     (if received > 0 then Some (js_div (Number spent) (Number received)) else None)"

definition updateAddressCost :: "cost_table \<Rightarrow> Trade \<Rightarrow> cost_table" where
  "updateAddressCost db trade =
     (let key = (projectId trade, trader trade);
          existing = map_of db key;
          spentQuoteNet0 = (case existing of None \<Rightarrow> 0 | Some r \<Rightarrow> spentQuoteGross r);
          spentQuoteGrossActual0 =
            (case existing of None \<Rightarrow> 0 | Some r \<Rightarrow> spentQuoteGrossActual r);
          tokensReceived0 = (case existing of None \<Rightarrow> 0 | Some r \<Rightarrow> tokensReceived r);
          tokensSold0 = (case existing of None \<Rightarrow> 0 | Some r \<Rightarrow> tokensSold r);
          quoteReceived0 = (case existing of None \<Rightarrow> 0 | Some r \<Rightarrow> quoteReceived r);
          buy = (case (quoteIn trade, tokenOut trade) of
                   (Some qi, Some tout) \<Rightarrow>
                     if side trade = BUY
                     then Some (qi, (case quoteInGross trade of Some g \<Rightarrow> g | None \<Rightarrow> qi), tout)
                     else None
                 | _ \<Rightarrow> None);
          sell = (case (tokenIn trade, quoteOut trade) of
                    (Some tin, Some qo) \<Rightarrow> if side trade = SELL then Some (tin, qo) else None
                  | _ \<Rightarrow> None);
          spentQuoteNet =
            (case buy of Some (qi, g, tout) \<Rightarrow> spentQuoteNet0 + qi | None \<Rightarrow> spentQuoteNet0);
          spentGross =
            (case buy of Some (qi, g, tout) \<Rightarrow> spentQuoteGrossActual0 + g
             | None \<Rightarrow> spentQuoteGrossActual0);
          received =
            (case buy of Some (qi, g, tout) \<Rightarrow> tokensReceived0 + tout | None \<Rightarrow> tokensReceived0);
          sold =
            (case buy of Some b \<Rightarrow> tokensSold0
             | None \<Rightarrow> (case sell of Some (tin, qo) \<Rightarrow> tokensSold0 + tin | None \<Rightarrow> tokensSold0));
          qreceived =
            (case buy of Some b \<Rightarrow> quoteReceived0
             | None \<Rightarrow> (case sell of Some (tin, qo) \<Rightarrow> quoteReceived0 + qo
                        | None \<Rightarrow> quoteReceived0))
      in AList.update key
           \<lparr> ac_projectId = projectId trade, ac_address = trader trade,
             spentQuoteGross = spentQuoteNet, spentQuoteGrossActual = spentGross,
             tokensReceived = received, tokensSold = sold, quoteReceived = qreceived,
             avgCost = avg_of spentQuoteNet received, avgCostGross = avg_of spentGross received,
             lastUpdatedBlock = Some (tr_blockNumber trade) \<rparr> db)"

definition updateAddressCosts :: "cost_table \<Rightarrow> Trade list \<Rightarrow> cost_table" where
  "updateAddressCosts db trades = foldl updateAddressCost db trades"

record CostSummary =
  weightedAvgCost :: "jsnum option"
  equalWeightAvgCost :: "jsnum option"
  p50 :: "jsnum option"
  p75 :: "jsnum option"
  p90 :: "jsnum option"
  addressCount :: int

definition empty_summary :: CostSummary where
  "empty_summary =
     \<lparr> weightedAvgCost = None, equalWeightAvgCost = None, p50 = None, p75 = None, p90 = None,
       addressCount = 0 \<rparr>"

text \<open>A row of \<open>token_balances\<close> and the map \<open>balanceMap\<close> built from the rows.\<close>

record TokenBalanceRow =
  tb_projectId :: string
  tb_address :: string
  tb_balance :: int

definition balance_map :: "TokenBalanceRow list \<Rightarrow> (string \<rightharpoonup> int)" where
  "balance_map rows = foldl (\<lambda>m b. m(toLowerCase (tb_address b) \<mapsto> tb_balance b)) Map.empty rows"

text \<open>
  The pro-rated remaining cost of a position:
  \<open>soldCostGross = tokensSold > 0 ? spent * tokensSold / tokensReceived : 0\<close> and
  \<open>remainingCostGross = spent > soldCostGross ? spent - soldCostGross : 0\<close>.
\<close>

definition remainingCostGross_of :: "int \<Rightarrow> int \<Rightarrow> int \<Rightarrow> error + int" where
  "remainingCostGross_of spentGrossActual received sold =
     (case (if sold > 0 then bigint_div (spentGrossActual * sold) received else Inr 0) of
        Inl e \<Rightarrow> Inl e
      | Inr soldCostGross \<Rightarrow>
          Inr (if spentGrossActual > soldCostGross then spentGrossActual - soldCostGross else 0))"

text \<open>
  The body of the loop over the cost rows up to the two additions: \<open>Inr None\<close> is a
  \<open>continue\<close>, \<open>Inr (Some (remainingCostGross, remainingTokens))\<close> an open position.
\<close>

definition open_position :: "(string \<rightharpoonup> int) \<Rightarrow> AddressCostRow \<Rightarrow> error + (int \<times> int) option" where
  "open_position balanceMap row =
     (let balance = (case balanceMap (toLowerCase (ac_address row)) of None \<Rightarrow> 0 | Some b \<Rightarrow> b)
      in if balance \<le> 0 then Inr None
         else if tokensReceived row \<le> 0 then Inr None
         else
           let remainingTokens =
                 (if tokensReceived row > tokensSold row
                  then tokensReceived row - tokensSold row else 0)
           in if remainingTokens \<le> 0 then Inr None
              else
                case remainingCostGross_of (spentQuoteGrossActual row) (tokensReceived row)
                       (tokensSold row) of
                  Inl e \<Rightarrow> Inl e
                | Inr remainingCostGross \<Rightarrow>
                    if remainingCostGross \<le> 0 then Inr None
                    else Inr (Some (remainingCostGross, remainingTokens)))"

record summary_acc =
  totalRemainingCostGross :: int
  totalRemainingTokens :: int
  openCosts :: "rat list"

text \<open>
  \<open>openCosts\<close> receives \<open>Number(remainingCostGross) / Number(remainingTokens)\<close> when it
  is finite and positive, so the list holds finite values: the model keeps the rationals.
\<close>

fun cost_loop :: "(string \<rightharpoonup> int) \<Rightarrow> summary_acc \<Rightarrow> AddressCostRow list \<Rightarrow> error + summary_acc" where
  "cost_loop balanceMap acc [] = Inr acc"
| "cost_loop balanceMap acc (row # rows) =
     (case open_position balanceMap row of
        Inl e \<Rightarrow> Inl e
      | Inr None \<Rightarrow> cost_loop balanceMap acc rows
      | Inr (Some (remainingCostGross, remainingTokens)) \<Rightarrow>
          cost_loop balanceMap
            \<lparr> totalRemainingCostGross = totalRemainingCostGross acc + remainingCostGross,
              totalRemainingTokens = totalRemainingTokens acc + remainingTokens,
              openCosts =
                (case js_div (Number remainingCostGross) (Number remainingTokens) of
                   Fin q \<Rightarrow> if q > 0 then openCosts acc @ [q] else openCosts acc
                 | _ \<Rightarrow> openCosts acc) \<rparr> rows)"

text \<open>\<open>percentile\<close>: the element at index \<open>max 0 (ceil (p / 100 * length) - 1)\<close>.\<close>

definition percentile :: "rat list \<Rightarrow> rat \<Rightarrow> jsnum option" where
  "percentile arr p =
     (if arr = [] then None
      else Some (Fin (arr ! nat (max 0 (\<lceil>p / 100 * of_nat (length arr)\<rceil> - 1)))))"

definition computeCostSummary ::
  "cost_table \<Rightarrow> TokenBalanceRow list \<Rightarrow> string \<Rightarrow> error + CostSummary" where
  "computeCostSummary costs balances pid =
     (let costRows = filter (\<lambda>r. ac_projectId r = pid) (map snd costs)
      in if costRows = [] then Inr empty_summary
         else
           case cost_loop (balance_map (filter (\<lambda>b. tb_projectId b = pid) balances))
                  \<lparr> totalRemainingCostGross = 0, totalRemainingTokens = 0, openCosts = [] \<rparr>
                  costRows of
             Inl e \<Rightarrow> Inl e
           | Inr acc \<Rightarrow>
               if openCosts acc = [] \<or> totalRemainingTokens acc \<le> 0 then Inr empty_summary
               else
                 (let sorted_costs = sort (openCosts acc)
                  in Inr \<lparr> weightedAvgCost =
                             Some (js_div (Number (totalRemainingCostGross acc))
                                     (Number (totalRemainingTokens acc))),
                           equalWeightAvgCost =
                             Some (Fin (sum_list (openCosts acc) / of_nat (length (openCosts acc)))),
                           p50 = percentile sorted_costs 50,
                           p75 = percentile sorted_costs 75,
                           p90 = percentile sorted_costs 90,
                           addressCount = int (length (openCosts acc)) \<rparr>))"

section \<open>Orchestrator: inserting trades and emitting events (indexer/index.ts)\<close>

text \<open>The events of \<open>types.ts\<close> that \<open>processBlockRange\<close> emits.\<close>

datatype WsEvent =
    WsTrade string Trade
  | WsWhaleAlert string string int Side

definition whaleThresholdSingleTrade :: int where
  "whaleThresholdSingleTrade = 1000000000000000000000"

text \<open>
  The \<open>trades\<close> table has a unique index on (transaction hash, log index).
  \<open>insert(...).onConflictDoNothing().run()\<close> adds the row and reports one change, or
  on a duplicate key leaves the table as it is and reports no change; it does not throw
  on a duplicate.
\<close>

definition trade_key :: "Trade \<Rightarrow> string \<times> int" where
  "trade_key t = (tr_txHash t, tr_logIndex t)"

definition insert_trade :: "Trade list \<Rightarrow> Trade \<Rightarrow> Trade list \<times> int" where
  "insert_trade tbl t =
     (if trade_key t \<in> set (map trade_key tbl) then (tbl, 0) else (tbl @ [t], 1))"

text \<open>
  The state threaded through the loop over \<open>allTrades\<close> (and, in the same shape, over
  \<open>externalTrades\<close>): the table, the list of newly inserted trades and the events
  handed to \<open>eventBus.emit\<close> so far.
\<close>

record insert_state =
  trades_table :: "Trade list"
  insertedTrades :: "Trade list"
  emitted :: "WsEvent list"

definition whale_amount :: "Trade \<Rightarrow> int" where
  "whale_amount t =
     (case quoteInGross t of
        Some g \<Rightarrow> g
      | None \<Rightarrow> (case quoteIn t of Some q \<Rightarrow> q | None \<Rightarrow> 0))"

definition insert_and_emit :: "string \<Rightarrow> insert_state \<Rightarrow> Trade \<Rightarrow> insert_state" where
  "insert_and_emit pid s t =
     (let (tbl, changes) = insert_trade (trades_table s) t;
          inserted = (if changes > 0 then insertedTrades s @ [t] else insertedTrades s);
          events = emitted s @ [WsTrade pid t];
          quoteAmount = whale_amount t;
          events' =
            (if quoteAmount \<ge> whaleThresholdSingleTrade
             then events @ [WsWhaleAlert pid (trader t) quoteAmount (side t)] else events)
      in \<lparr> trades_table = tbl, insertedTrades = inserted, emitted = events' \<rparr>)"

text \<open>
  The insert phase for the trades of one block: the loop, then the cost ledger on the
  newly inserted trades and their count for \<open>totalTrades\<close>.
\<close>

definition insert_phase ::
  "string \<Rightarrow> Trade list \<Rightarrow> cost_table \<Rightarrow> WsEvent list \<Rightarrow> Trade list
     \<Rightarrow> Trade list \<times> cost_table \<times> WsEvent list \<times> nat" where
  "insert_phase pid tbl costs events allTrades =
     (let s = foldl (insert_and_emit pid)
                \<lparr> trades_table = tbl, insertedTrades = [], emitted = events \<rparr> allTrades;
          costs' = (if insertedTrades s \<noteq> [] then updateAddressCosts costs (insertedTrades s)
                    else costs)
      in (trades_table s, costs', emitted s, length (insertedTrades s)))"

section \<open>Log reader (chain/utils.ts, indexer/observability.ts)\<close>

text \<open>A raw log, with the fields the code below reads.\<close>

record Log =
  lg_address :: string
  lg_blockNumber :: int
  lg_logIndex :: int
  lg_txHash :: string

text \<open>
  The provider's \<open>getLogs\<close> for one contract: from the attempt number for the range
  (\<open>0\<close> for the first call, \<open>1\<close>, \<open>2\<close>, \<open>3\<close> for the direct retries) and the
  inclusive block range to the logs or the error thrown.
\<close>

type_synonym provider = "nat \<Rightarrow> int \<Rightarrow> int \<Rightarrow> error + Log list"

definition error_message :: "error \<Rightarrow> string" where
  "error_message e =
     (case e of
        ProviderError msg \<Rightarrow> msg
      | InvalidAddressError \<Rightarrow> ''Address is invalid.''
      | RangeError \<Rightarrow> ''Division by zero'')"

definition is_range_message :: "string \<Rightarrow> bool" where
  "is_range_message msg =
     (sublist ''range'' msg \<or> sublist ''limit'' msg \<or> sublist ''too many'' msg \<or>
      sublist ''block range'' msg \<or> sublist ''Log response size exceeded'' msg)"

text \<open>
  What \<open>fetchTransferLogs\<close> does besides returning: it sleeps and it records failure
  observations. The function returns these effects in order, next to its result.
\<close>

datatype effect = Sleep nat | RecordFailure string int int string

text \<open>
  The direct retries \<open>for (let i = 0; i < 3; i++)\<close>: sleep \<open>500 * (i + 1)\<close> ms, call
  \<open>getLogs\<close> again, return its logs or go on.
\<close>

fun direct_retries :: "provider \<Rightarrow> int \<Rightarrow> int \<Rightarrow> nat list \<Rightarrow> Log list option \<times> effect list" where
  "direct_retries P fromBlock toBlock [] = (None, [])"
| "direct_retries P fromBlock toBlock (i # rest) =
     (case P (Suc i) fromBlock toBlock of
        Inr logs \<Rightarrow> (Some logs, [Sleep (500 * (i + 1))])
      | Inl e \<Rightarrow>
          (let (r, eff) = direct_retries P fromBlock toBlock rest
           in (r, Sleep (500 * (i + 1)) # eff)))"

text \<open>
  \<open>Promise.all\<close> runs the two halves concurrently; the model runs the left half, then
  the right one, keeps the effects of both and, when both fail, the error of the left.
\<close>

function fetchTransferLogs ::
  "provider \<Rightarrow> string \<Rightarrow> int \<Rightarrow> int \<Rightarrow> (error + Log list) \<times> effect list" where
  "fetchTransferLogs P contractAddress fromBlock toBlock =
     (case P 0 fromBlock toBlock of
        Inr logs \<Rightarrow> (Inr logs, [])
      | Inl err \<Rightarrow>
          (let msg = error_message err
           in if is_range_message msg then
                (if toBlock - fromBlock \<le> 1 then
                   (case direct_retries P fromBlock toBlock [0, 1, 2] of
                      (Some logs, eff) \<Rightarrow> (Inr logs, eff)
                    | (None, eff) \<Rightarrow>
                        (case getAddress contractAddress of
                           Inl e \<Rightarrow> (Inl e, eff)
                         | Inr a \<Rightarrow>
                             (Inr [],
                              eff @ [RecordFailure contractAddress fromBlock toBlock
                                       (if msg = [] then ''unknown getLogs error'' else msg)])))
                 else
                   (let mid = fromBlock + (toBlock - fromBlock) sdiv 2;
                        left = fetchTransferLogs P contractAddress fromBlock mid;
                        right = fetchTransferLogs P contractAddress (mid + 1) toBlock
                    in (case fst left of
                          Inl e \<Rightarrow> (Inl e, snd left @ snd right)
                        | Inr ls \<Rightarrow>
                            (case fst right of
                               Inl e \<Rightarrow> (Inl e, snd left @ snd right)
                             | Inr rs \<Rightarrow> (Inr (ls @ rs), snd left @ snd right)))))
              else (Inl err, [])))"
  by pat_completeness auto
termination
proof (relation "measure (\<lambda>(P, c, a, b). nat (b - a))")
  show "wf (measure (\<lambda>(P, c, a, b). nat (b - a)))" by simp
next
  fix P :: provider and c :: string and a b :: int and mid :: int
  assume "\<not> b - a \<le> 1" and m: "mid = a + (b - a) sdiv 2"
  then have "1 < b - a" by simp
  then have "(b - a) sdiv 2 = (b - a) div 2 \<and> 0 < (b - a) div 2 \<and> (b - a) div 2 < b - a"
    by (simp add: signed_divide_int_def) presburger
  with m show "((P, c, a, mid), P, c, a, b) \<in> measure (\<lambda>(P, c, a, b). nat (b - a))"
    by simp
next
  fix P :: provider and c :: string and a b :: int and mid :: int
  assume "\<not> b - a \<le> 1" and m: "mid = a + (b - a) sdiv 2"
  then have "1 < b - a" by simp
  then have "(b - a) sdiv 2 = (b - a) div 2 \<and> 0 < (b - a) div 2 \<and> (b - a) div 2 < b - a"
    by (simp add: signed_divide_int_def) presburger
  with m show "((P, c, mid + 1, b), P, c, a, b) \<in> measure (\<lambda>(P, c, a, b). nat (b - a))"
    by simp
qed

text \<open>
  \<open>recordTransferLogFailure\<close>: the statistics per contract, keyed by the lower-cased
  address. The time of the failure (\<open>lastFailureAt\<close>, read from the clock) is left out.
\<close>

record TransferLogFailureStat =
  fs_contractAddress :: string
  fs_failureCount :: int
  fs_lastFailureRange :: "int \<times> int"
  fs_lastError :: string

definition recordTransferLogFailure ::
  "(string \<rightharpoonup> TransferLogFailureStat) \<Rightarrow> string \<Rightarrow> int \<Rightarrow> int \<Rightarrow> string
     \<Rightarrow> error + (string \<rightharpoonup> TransferLogFailureStat)" where
  "recordTransferLogFailure stats contractAddress fromBlock toBlock errorMessage =
     (case getAddress contractAddress of
        Inl e \<Rightarrow> Inl e
      | Inr a \<Rightarrow>
          (let normalized = toLowerCase a;
               n = (case stats normalized of None \<Rightarrow> 0 | Some st \<Rightarrow> fs_failureCount st)
           in Inr (stats(normalized \<mapsto>
                \<lparr> fs_contractAddress = normalized, fs_failureCount = n + 1,
                  fs_lastFailureRange = (fromBlock, toBlock),
                  fs_lastError = take 300 errorMessage \<rparr>))))"

text \<open>
  The logs of a contract's history that lie in an inclusive block range: what a single
  fetch of the range from a provider without limits returns.
\<close>

definition logs_in :: "Log list \<Rightarrow> int \<Rightarrow> int \<Rightarrow> Log list" where
  "logs_in history fromBlock toBlock =
     filter (\<lambda>l. fromBlock \<le> lg_blockNumber l \<and> lg_blockNumber l \<le> toBlock) history"

definition unlimited_getLogs :: "Log list \<Rightarrow> provider" where
  "unlimited_getLogs history attempt fromBlock toBlock = Inr (logs_in history fromBlock toBlock)"

text \<open>
  The provider of the range-split property: \<open>getLogs\<close> fails with a range error exactly
  when the requested range holds more logs than the threshold, at every attempt.
\<close>

definition capped_getLogs :: "Log list \<Rightarrow> nat \<Rightarrow> provider" where
  "capped_getLogs history cap attempt fromBlock toBlock =
     (if length (logs_in history fromBlock toBlock) > cap
      then Inl (ProviderError ''query exceeds max block range'')
      else Inr (logs_in history fromBlock toBlock))"

section \<open>First-active-block locator (indexer/first-block.ts)\<close>

text \<open>
  Phase 1, the backward scan \<open>while (!found && toBlock > 0)\<close>. The loop does not end
  when the fetch keeps throwing, so it is a partial function: \<open>None\<close> is a run that
  never returns, \<open>Some None\<close> a scan that reached block 0 without a hit and
  \<open>Some (Some (hitFromBlock, hitToBlock))\<close> the window of the hit.
\<close>

partial_function (option) scan_back ::
  "provider \<Rightarrow> string \<Rightarrow> int \<Rightarrow> int \<Rightarrow> int \<Rightarrow> (int \<times> int) option option" where
  "scan_back P tokenAddress maxScanWindow windowSize toBlock =
     (if toBlock > 0 then
        (let fromBlock = max 0 (toBlock - windowSize)
         in case fst (fetchTransferLogs P tokenAddress fromBlock toBlock) of
              Inr logs \<Rightarrow>
                if logs \<noteq> [] then Some (Some (fromBlock, toBlock))
                else scan_back P tokenAddress maxScanWindow
                       (min (windowSize * 2) maxScanWindow) (fromBlock - 1)
            | Inl e \<Rightarrow>
                scan_back P tokenAddress maxScanWindow (max (windowSize div 2) 1000) toBlock)
      else Some None)"

declare scan_back.simps [code]

text \<open>
  Phase 2, the binary search \<open>while (lo <= hi)\<close> with the variable \<open>firstBlock\<close>;
  \<open>Math.min\<close> is taken over the block numbers of a non-empty list of logs.
\<close>

partial_function (option) binary_search ::
  "provider \<Rightarrow> string \<Rightarrow> int \<Rightarrow> int \<Rightarrow> int \<Rightarrow> int option" where
  "binary_search P tokenAddress lo hi firstBlock =
     (if lo \<le> hi then
        (let mid = (lo + hi) div 2
         in case fst (fetchTransferLogs P tokenAddress lo mid) of
              Inr logs \<Rightarrow>
                if logs \<noteq> [] then
                  (let earliestLogBlock = Min (set (map lg_blockNumber logs))
                   in binary_search P tokenAddress lo (earliestLogBlock - 1) earliestLogBlock)
                else binary_search P tokenAddress (mid + 1) hi firstBlock
            | Inl e \<Rightarrow> binary_search P tokenAddress lo ((lo + hi) div 2) firstBlock)
      else Some firstBlock)"

declare binary_search.simps [code]

text \<open>
  \<open>findFirstActiveBlock\<close>, given the provider, the chain head \<open>latestBlock\<close> and the
  two window sizes of the configuration.
\<close>

definition initialScanWindow :: int where
  "initialScanWindow = 20000"

definition maxScanWindow :: int where
  "maxScanWindow = 1000000"

definition findFirstActiveBlock :: "provider \<Rightarrow> string \<Rightarrow> int \<Rightarrow> int \<Rightarrow> int \<Rightarrow> int option" where
  "findFirstActiveBlock P tokenAddress latestBlock initialWindow maxWindow =
     (case scan_back P tokenAddress maxWindow initialWindow latestBlock of
        None \<Rightarrow> None
      | Some None \<Rightarrow> Some 0
      | Some (Some (hitFromBlock, hitToBlock)) \<Rightarrow>
          binary_search P tokenAddress hitFromBlock hitToBlock hitToBlock)"

section \<open>Sample data\<close>

abbreviation (input) sample_market :: string where
  "sample_market \<equiv> ''0x1111111111111111111111111111111111111111''"
abbreviation (input) sample_trader :: string where
  "sample_trader \<equiv> ''0x2222222222222222222222222222222222222222''"
abbreviation (input) sample_tax :: string where
  "sample_tax \<equiv> ''0x3333333333333333333333333333333333333333''"
abbreviation (input) sample_token :: string where
  "sample_token \<equiv> ''0x4444444444444444444444444444444444444444''"
abbreviation (input) sample_router :: string where
  "sample_router \<equiv> ''0x5555555555555555555555555555555555555555''"
abbreviation (input) sample_pair :: string where
  "sample_pair \<equiv> ''0x6666666666666666666666666666666666666666''"

definition sample_log :: "int \<Rightarrow> int \<Rightarrow> Log" where
  "sample_log b i =
     \<lparr> lg_address = sample_token, lg_blockNumber = b, lg_logIndex = i, lg_txHash = ''0xaa'' \<rparr>"

abbreviation (input) sample_trade :: Trade where
  "sample_trade \<equiv>
     \<lparr> projectId = ''p1'', venue = INTERNAL, marketAddress = sample_market,
       tr_txHash = ''0xaa'', tr_logIndex = 1, tr_blockNumber = 7, ts = 1700000000,
       trader = sample_trader, side = BUY,
       quoteIn = Some 99, quoteInGross = Some 100, quoteOut = None, tokenIn = None,
       tokenOut = Some 1000, priceQuotePerToken = Some (99 / 1000) \<rparr>"

section \<open>Properties of the trade reconstruction\<close>

lemma isAddress_VIRTUAL: "isAddress VIRTUAL_ADDRESS"
  by (simp add: isAddress_def VIRTUAL_ADDRESS_def is_hex_char_def)

lemma isAddress_usable: "isAddress a \<Longrightarrow> a \<noteq> [] \<and> a \<noteq> ''unknown''"
  by (auto simp: isAddress_def)

lemmas reconstruct_defs =
  reconstructTrades_def getAddress_def group_transfers_def add_token_def add_virtual_def
  touches_def candidate_of_group_def delta_def sum_where_def pick_trader_def
  trade_of_candidate_def price_of_def Let_def

lemmas address_eval = isAddress_def is_hex_char_def toLowerCase_def lower_char_def

text \<open>
  C1. A transaction whose transfers are the token transfer market \<open>\<rightarrow>\<close> trader of 1000
  and the quote transfers trader \<open>\<rightarrow>\<close> market of 99 and trader \<open>\<rightarrow>\<close> tax address of 1
  gives exactly one trade: a BUY with \<open>tokenOut = 1000\<close>, \<open>quoteInGross = 100\<close>,
  \<open>quoteIn = 99\<close> and price \<open>99 / 1000 = 0.099\<close>. The addresses are any valid
  addresses with the trader and the tax address different from the market.
\<close>

theorem reconstruct_simple_buy:
  assumes adr: "isAddress market" "isAddress tokenAddr" "isAddress buyer"
    and ne: "toLowerCase buyer \<noteq> toLowerCase market"
      "toLowerCase taxAddr \<noteq> toLowerCase market"
  shows "\<exists>t. reconstructTrades
           [\<lparr> t_address = tokenAddr, t_from = market, t_to = buyer, t_value = 1000,
              txHash = h, logIndex = i1, blockNumber = b \<rparr>]
           [\<lparr> t_address = VIRTUAL_ADDRESS, t_from = buyer, t_to = market, t_value = 99,
              txHash = h, logIndex = i2, blockNumber = b \<rparr>,
            \<lparr> t_address = VIRTUAL_ADDRESS, t_from = buyer, t_to = taxAddr, t_value = 1,
              txHash = h, logIndex = i3, blockNumber = b \<rparr>]
           market tokenAddr pid ven stamp = Inr [t]
         \<and> side t = BUY \<and> tokenOut t = Some 1000 \<and> quoteInGross t = Some 100
         \<and> quoteIn t = Some 99 \<and> priceQuotePerToken t = Some (99 / 1000)"
proof -
  from adr(3) have b: "buyer \<noteq> []" "buyer \<noteq> ''unknown''"
    using isAddress_usable by blast+
  from ne have ne': "toLowerCase market \<noteq> toLowerCase buyer"
    "toLowerCase market \<noteq> toLowerCase taxAddr"
    by auto
  show ?thesis
    using adr b ne ne' isAddress_VIRTUAL by (simp add: reconstruct_defs)
qed

theorem reconstruct_simple_buy_witness:
  "isAddress sample_market \<and> isAddress sample_token \<and> isAddress sample_trader \<and>
   toLowerCase sample_trader \<noteq> toLowerCase sample_market \<and>
   toLowerCase sample_tax \<noteq> toLowerCase sample_market \<and>
   (\<exists>t. reconstructTrades
           [\<lparr> t_address = sample_token, t_from = sample_market, t_to = sample_trader,
              t_value = 1000, txHash = ''0xaa'', logIndex = 3, blockNumber = 7 \<rparr>]
           [\<lparr> t_address = VIRTUAL_ADDRESS, t_from = sample_trader, t_to = sample_market,
              t_value = 99, txHash = ''0xaa'', logIndex = 1, blockNumber = 7 \<rparr>,
            \<lparr> t_address = VIRTUAL_ADDRESS, t_from = sample_trader, t_to = sample_tax,
              t_value = 1, txHash = ''0xaa'', logIndex = 2, blockNumber = 7 \<rparr>]
           sample_market sample_token ''p1'' INTERNAL 1700000000 = Inr [t]
         \<and> side t = BUY \<and> tokenOut t = Some 1000 \<and> quoteInGross t = Some 100
         \<and> quoteIn t = Some 99 \<and> priceQuotePerToken t = Some (99 / 1000))"
proof -
  have a: "isAddress sample_market" "isAddress sample_token" "isAddress sample_trader"
    by (simp_all add: isAddress_def is_hex_char_def)
  have n: "toLowerCase sample_trader \<noteq> toLowerCase sample_market"
    "toLowerCase sample_tax \<noteq> toLowerCase sample_market"
    by (simp_all add: toLowerCase_def lower_char_def)
  show ?thesis
    using a n reconstruct_simple_buy [OF a n] by blast
qed

text \<open>
  C2. The claim is that every BUY trade has \<open>quoteIn \<le> quoteInGross\<close>. The direct BUY
  branch clamps the market-wide gross to the net amount and then replaces it by the
  trader's own quote outflow without clamping again. In the transaction below a router
  pays 99 into the market and the trader pays 1 to the tax address: the trade carries
  \<open>quoteIn = 99\<close> and \<open>quoteInGross = 1\<close>.
\<close>

theorem reconstruct_gross_below_net:
  "reconstructTrades
     [\<lparr> t_address = sample_token, t_from = sample_market, t_to = sample_trader,
        t_value = 1000, txHash = ''0xaa'', logIndex = 3, blockNumber = 7 \<rparr>]
     [\<lparr> t_address = VIRTUAL_ADDRESS, t_from = sample_router, t_to = sample_market,
        t_value = 99, txHash = ''0xaa'', logIndex = 1, blockNumber = 7 \<rparr>,
      \<lparr> t_address = VIRTUAL_ADDRESS, t_from = sample_trader, t_to = sample_tax,
        t_value = 1, txHash = ''0xaa'', logIndex = 2, blockNumber = 7 \<rparr>]
     sample_market sample_token ''p1'' INTERNAL 1700000000
   = Inr [\<lparr> projectId = ''p1'', venue = INTERNAL, marketAddress = sample_market,
        tr_txHash = ''0xaa'', tr_logIndex = 1, tr_blockNumber = 7, ts = 1700000000,
        trader = sample_trader, side = BUY,
        quoteIn = Some 99, quoteInGross = Some 1, quoteOut = None, tokenIn = None,
        tokenOut = Some 1000, priceQuotePerToken = Some (99 / 1000) \<rparr>]"
  by (simp add: reconstruct_defs address_eval VIRTUAL_ADDRESS_def minLogIndex_def
      first_blockNumber_def)

text \<open>
  The router-fallback BUY branch does clamp: every BUY candidate that does not come from
  the direct branch has \<open>quoteIn \<le> quoteInGross\<close>.
\<close>

lemma fallback_buy_clamped:
  assumes c: "candidate_of_group m g = Inr (Some c)"
    and buy: "c_side c = BUY"
    and fb: "\<not> (delta m (virtual g) > 0 \<and> delta m (token g) < 0)"
  shows "\<exists>net gross. c_quoteIn c = Some net \<and> c_quoteInGross c = Some gross \<and> net \<le> gross"
proof -
  have nz: "\<not> (delta m (virtual g) = 0 \<and> delta m (token g) = 0)"
    using c by (auto simp: candidate_of_group_def Let_def)
  show ?thesis
    using c buy fb nz
    unfolding candidate_of_group_def Let_def
    by (simp split: if_splits sum.splits) auto
qed

section \<open>Properties of the AMM simulator\<close>

lemma sdiv_nonneg: "0 \<le> a \<Longrightarrow> 0 < b \<Longrightarrow> (a::int) sdiv b = a div b"
  by (cases "a = 0") (simp_all add: signed_divide_int_def)

lemma sell_pressure_ideal: "sell_pressure 0 rv rt out = Inr (rv, rt)"
  by (simp add: sell_pressure_def)

lemma price_mono:
  assumes "0 < rv" "0 \<le> rt'" "rt' \<le> rt" "rv \<le> rv'"
  shows "js_le (reserve_price rv rt) (reserve_price rv' rt')"
proof (cases "rt' = 0")
  case True
  then show ?thesis
    using assms by (cases "rt = 0") (simp_all add: reserve_price_def Number_def)
next
  case False
  with assms have p: "0 < rt'" "0 < rt" by auto
  have "(of_int rv :: rat) / of_int rt \<le> of_int rv' / of_int rt'"
    using assms p by (intro frac_le) simp_all
  then show ?thesis
    using p by (simp add: reserve_price_def Number_def not_less)
qed

text \<open>
  One iteration without sell pressure, from a positive quote reserve and a non-negative
  token reserve, with a positive amount: it does not throw, the product of the reserves
  drops by exactly the remainder of the division, and the price does not fall.
\<close>

lemma ideal_iter:
  assumes bps: "e_sellPressureBps env = 0"
    and rv: "0 < st_reserveVirtual s" and rt: "0 \<le> st_reserveToken s"
    and amt: "0 < step_amount env i"
  shows "\<exists>s'. buyback_iter env s i = Inr s'
     \<and> 0 < st_reserveVirtual s' \<and> 0 \<le> st_reserveToken s'
     \<and> st_reserveVirtual s' * st_reserveToken s' \<le> st_reserveVirtual s * st_reserveToken s
     \<and> st_reserveVirtual s * st_reserveToken s - st_reserveVirtual s' * st_reserveToken s'
         = (st_reserveVirtual s * st_reserveToken s) mod (st_reserveVirtual s + step_amount env i)
     \<and> js_le (reserve_price (st_reserveVirtual s) (st_reserveToken s))
              (reserve_price (st_reserveVirtual s') (st_reserveToken s'))"
proof -
  define a where "a = step_amount env i"
  define v where "v = st_reserveVirtual s"
  define t where "t = st_reserveToken s"
  define n where "n = (v * t) div (v + a)"
  have pos: "0 < v + a" "0 \<le> v * t"
    using rv rt amt by (simp_all add: a_def v_def t_def)
  have dv: "bigint_div (v * t) (v + a) = Inr n"
    using pos by (simp add: bigint_div_def n_def sdiv_nonneg)
  have n0: "0 \<le> n"
    using pos by (simp add: n_def pos_imp_zdiv_nonneg_iff)
  have nle: "n \<le> t"
  proof -
    have "v * t \<le> (v + a) * t"
      using rt amt rv by (simp add: a_def v_def t_def mult_right_mono)
    then have "(v * t) div (v + a) \<le> ((v + a) * t) div (v + a)"
      by (rule zdiv_mono1) (use pos in simp)
    then show ?thesis using pos by (simp add: n_def)
  qed
  have md: "v * t - (v + a) * n = (v * t) mod (v + a)"
    unfolding n_def by (simp add: minus_mult_div_eq_mod)
  have ple: "(v + a) * n \<le> v * t"
    using md pos_mod_sign [OF pos(1), of "v * t"] by linarith
  show ?thesis
  proof (cases "t - n \<le> 0")
    case True
    with nle have tn: "n = t" by simp
    have "a * t \<le> 0" using ple tn by (simp add: algebra_simps)
    then have "t \<le> 0" using amt by (simp add: a_def mult_le_0_iff)
    then have "t = 0" using rt by (simp add: t_def)
    then show ?thesis
      using True dv rv rt
      by (simp add: buyback_iter_def Let_def a_def[symmetric] v_def[symmetric]
          t_def[symmetric] reserve_price_def Number_def)
  next
    case False
    have "js_le (reserve_price v t) (reserve_price (v + a) n)"
      using rv n0 nle amt by (intro price_mono) (simp_all add: v_def a_def)
    then show ?thesis
      using False dv pos n0 md ple
      by (simp add: buyback_iter_def Let_def a_def[symmetric] v_def[symmetric]
          t_def[symmetric] sell_pressure_ideal bps)
  qed
qed

lemma buyback_loop_append:
  "buyback_loop env s (xs @ ys) =
     (case buyback_loop env s xs of Inl e \<Rightarrow> Inl e | Inr s' \<Rightarrow> buyback_loop env s' ys)"
  by (induction xs arbitrary: s) (auto split: sum.splits)

lemma ideal_loop_positive:
  assumes bps: "e_sellPressureBps env = 0" and amt: "\<And>i. 0 < step_amount env i"
  shows "0 < st_reserveVirtual s \<Longrightarrow> 0 \<le> st_reserveToken s \<Longrightarrow>
     \<exists>s'. buyback_loop env s idxs = Inr s' \<and> 0 < st_reserveVirtual s' \<and> 0 \<le> st_reserveToken s'"
proof (induction idxs arbitrary: s)
  case Nil
  then show ?case by simp
next
  case (Cons i idxs)
  from ideal_iter [OF bps Cons.prems amt]
  obtain s1 where s1: "buyback_iter env s i = Inr s1" "0 < st_reserveVirtual s1"
    "0 \<le> st_reserveToken s1" by blast
  from Cons.IH [OF s1(2,3)] s1(1) show ?case by simp
qed

lemma env_ideal:
  assumes "0 < amountPerStep"
    and "buyback_env reserve0 reserve1 isToken0 amountPerStep totalTaxInput iv IDEAL anchor
           = Inr env"
  shows "e_sellPressureBps env = 0 \<and> (\<forall>i. 0 < step_amount env i)"
  using assms
  by (auto simp: buyback_env_def bigint_div_def bigint_mod_def sellPressure_of_def
      step_amount_def Let_def split: if_splits)

text \<open>
  C4. In IDEAL mode, with positive reserves and amounts, take any step \<open>j\<close> of the run
  of \<open>simulateBuyback\<close>: \<open>s\<close> is the loop state after \<open>j\<close> iterations and \<open>s'\<close> the
  state after the next one. The product of the reserves after the step does not exceed
  the product before it, the difference is exactly the remainder of the integer division
  \<open>k / (reserveVirtual + buyAmount)\<close>, and the reserve-implied price does not decrease.
  No iteration throws.
\<close>

theorem buyback_ideal_step_invariant:
  assumes pos: "0 < reserve0" "0 < reserve1" "0 < amountPerStep" "0 < totalTaxInput"
    and env: "buyback_env reserve0 reserve1 isToken0 amountPerStep totalTaxInput iv IDEAL anchor
                = Inr env"
    and j: "j < nat (e_steps env)"
  shows "\<exists>s s'. buyback_loop env (buyback_init reserve0 reserve1 isToken0) [0 ..< j] = Inr s
     \<and> buyback_loop env (buyback_init reserve0 reserve1 isToken0) [0 ..< Suc j] = Inr s'
     \<and> buyback_iter env s j = Inr s'
     \<and> st_reserveVirtual s' * st_reserveToken s' \<le> st_reserveVirtual s * st_reserveToken s
     \<and> st_reserveVirtual s * st_reserveToken s - st_reserveVirtual s' * st_reserveToken s'
         = (st_reserveVirtual s * st_reserveToken s) mod (st_reserveVirtual s + step_amount env j)
     \<and> js_le (reserve_price (st_reserveVirtual s) (st_reserveToken s))
              (reserve_price (st_reserveVirtual s') (st_reserveToken s'))"
proof -
  from env_ideal [OF pos(3) env]
  have bps: "e_sellPressureBps env = 0" and amt: "\<And>i. 0 < step_amount env i" by auto
  have i0: "0 < st_reserveVirtual (buyback_init reserve0 reserve1 isToken0)"
    "0 \<le> st_reserveToken (buyback_init reserve0 reserve1 isToken0)"
    using pos by (simp_all add: buyback_init_def)
  from ideal_loop_positive [OF bps amt i0, of "[0 ..< j]"]
  obtain s where s: "buyback_loop env (buyback_init reserve0 reserve1 isToken0) [0 ..< j] = Inr s"
    "0 < st_reserveVirtual s" "0 \<le> st_reserveToken s" by blast
  from ideal_iter [OF bps s(2,3) amt, of j]
  obtain s' where s': "buyback_iter env s j = Inr s'"
    "st_reserveVirtual s' * st_reserveToken s' \<le> st_reserveVirtual s * st_reserveToken s"
    "st_reserveVirtual s * st_reserveToken s - st_reserveVirtual s' * st_reserveToken s'
         = (st_reserveVirtual s * st_reserveToken s) mod (st_reserveVirtual s + step_amount env j)"
    "js_le (reserve_price (st_reserveVirtual s) (st_reserveToken s))
              (reserve_price (st_reserveVirtual s') (st_reserveToken s'))" by blast
  have "buyback_loop env (buyback_init reserve0 reserve1 isToken0) [0 ..< Suc j] = Inr s'"
    using s(1) s'(1) by (simp add: buyback_loop_append)
  with s(1) s' show ?thesis by blast
qed

theorem buyback_ideal_step_invariant_witness:
  "\<exists>env. (0::int) < 1000 \<and> (0::int) < 5000 \<and> (0::int) < 100 \<and> (0::int) < 250
     \<and> buyback_env 1000 5000 False 100 250 (Fin 60) IDEAL None = Inr env
     \<and> 1 < nat (e_steps env)
     \<and> (\<exists>s s'. buyback_loop env (buyback_init 1000 5000 False) [0 ..< 1] = Inr s
         \<and> buyback_loop env (buyback_init 1000 5000 False) [0 ..< Suc 1] = Inr s'
         \<and> buyback_iter env s 1 = Inr s'
         \<and> st_reserveVirtual s' * st_reserveToken s' \<le> st_reserveVirtual s * st_reserveToken s
         \<and> st_reserveVirtual s * st_reserveToken s - st_reserveVirtual s' * st_reserveToken s'
             = (st_reserveVirtual s * st_reserveToken s) mod (st_reserveVirtual s + step_amount env 1)
         \<and> js_le (reserve_price (st_reserveVirtual s) (st_reserveToken s))
                  (reserve_price (st_reserveVirtual s') (st_reserveToken s')))"
proof -
  define env where "env = \<lparr>e_steps = 3, e_remainderAmount = 50, e_amountPerStep = 100,
        e_sellPressureBps = 0, e_initialPriceRaw = Fin (1 / 5),
        e_shouldAnchor = False, e_priceScale = Fin 1,
        e_stepIntervalSeconds = Fin 60\<rparr>"
  have e: "buyback_env 1000 5000 False 100 250 (Fin 60) IDEAL None = Inr env"
    by (simp add: buyback_env_def bigint_div_def bigint_mod_def sellPressure_of_def
        reserve_price_def Number_def signed_divide_int_def signed_modulo_int_def env_def)
  have j: "1 < nat (e_steps env)" by (simp add: env_def)
  have p: "(0::int) < 1000" "(0::int) < 5000" "(0::int) < 100" "(0::int) < 250" by simp_all
  from buyback_ideal_step_invariant [OF p e j] e j show ?thesis
    by (intro exI [of _ env]) simp
qed

text \<open>
  C10. On the degenerate inputs the simulators return without dividing or throwing.
  \<open>simulateBuyback\<close> with \<open>amountPerStep\<close>, \<open>totalTaxInput\<close>, \<open>reserve0\<close> or
  \<open>reserve1\<close> equal to zero returns the zeroed simulation: zero steps, an empty price
  trajectory, zero amounts and prices (\<open>amountPerStep\<close>, the step interval and the mode
  are echoed). \<open>simulateDump\<close> with a reserve or the sell amount \<open>\<le> 0\<close> returns zero
  for every computed field (the three inputs are echoed). \<open>simulateDump\<close> returns a
  result on every input.
\<close>

theorem simulators_degenerate:
  "(amountPerStep = 0 \<or> totalTaxInput = 0 \<or> reserve0 = 0 \<or> reserve1 = 0 \<longrightarrow>
      simulateBuyback reserve0 reserve1 isToken0 amountPerStep totalTaxInput iv m anchor =
        Inr \<lparr> bs_budget = 0, bs_amountPerStep = amountPerStep, bs_remainderAmount = 0,
              bs_steps = 0, bs_stepIntervalSeconds = iv, bs_totalTokensBought = 0,
              bs_avgPrice = Fin 0, bs_maxSlippage = Fin 0, bs_initialPrice = Fin 0,
              bs_priceTrajectory = [], bs_finalPrice = Fin 0, bs_priceImpactPercent = Fin 0,
              bs_reserveVirtual = 0, bs_reserveToken = 0,
              bs_assumptions =
                \<lparr> noExternalSells = (m = IDEAL), useCurrentLpReserves = True, as_mode = m,
                  sellPressureBpsPerStep = (if m = REALISTIC then 3000 else 0),
                  priceAnchor = RESERVE, as_spotPriceAnchor = None \<rparr> \<rparr>)
   \<and> (rv \<le> 0 \<or> rt \<le> 0 \<or> sell \<le> 0 \<longrightarrow>
      simulateDump rv rt sell =
        Inr \<lparr> ds_reserveVirtual = rv, ds_reserveToken = rt, ds_sellAmountToken = sell,
              ds_virtualOut = 0, ds_initialPrice = Fin 0, ds_finalPrice = Fin 0,
              ds_priceImpactPercent = Fin 0, ds_requiredBuybackVirtual = 0 \<rparr>)
   \<and> (\<exists>r. simulateDump rv rt sell = Inr r)"
  by (auto simp: simulateBuyback_def simulateDump_def sellPressure_of_def bigint_div_def Let_def)

theorem simulators_degenerate_witness:
  "simulateBuyback 1000 0 True 10 100 (Fin 60) REALISTIC None =
     Inr \<lparr> bs_budget = 0, bs_amountPerStep = 10, bs_remainderAmount = 0,
           bs_steps = 0, bs_stepIntervalSeconds = Fin 60, bs_totalTokensBought = 0,
           bs_avgPrice = Fin 0, bs_maxSlippage = Fin 0, bs_initialPrice = Fin 0,
           bs_priceTrajectory = [], bs_finalPrice = Fin 0, bs_priceImpactPercent = Fin 0,
           bs_reserveVirtual = 0, bs_reserveToken = 0,
           bs_assumptions =
             \<lparr> noExternalSells = False, useCurrentLpReserves = True, as_mode = REALISTIC,
               sellPressureBpsPerStep = 3000, priceAnchor = RESERVE,
               as_spotPriceAnchor = None \<rparr> \<rparr>
   \<and> simulateDump 100 0 5 =
     Inr \<lparr> ds_reserveVirtual = 100, ds_reserveToken = 0, ds_sellAmountToken = 5,
           ds_virtualOut = 0, ds_initialPrice = Fin 0, ds_finalPrice = Fin 0,
           ds_priceImpactPercent = Fin 0, ds_requiredBuybackVirtual = 0 \<rparr>"
  using simulators_degenerate [of 10 100 1000 0 True "Fin 60" REALISTIC None 100 0 5]
  by simp

section \<open>Properties of the graduation detector\<close>

text \<open>
  C5, the claim as stated fails: a pair that is a contract and reports the reserves
  \<open>(0, 5)\<close> is reported as graduated. The guard of the code is
  \<open>reserve0 === 0n && reserve1 === 0n\<close>.
\<close>

theorem checkGraduation_one_sided_reserves:
  "checkGraduation
     \<lparr> rd_uniswapV2Pair = Inr sample_pair, rd_getCode = Inr (Some ''0x6080''),
       rd_token0 = Inr sample_token, rd_token1 = Inr VIRTUAL_ADDRESS,
       rd_getReserves = Inr (0, 5, 1700000000) \<rparr>
   = \<lparr> graduated = True, pairAddress = Some sample_pair, gr_token0 = Some sample_token,
       gr_token1 = Some VIRTUAL_ADDRESS \<rparr>"
  by (simp add: checkGraduation_def isContract_def ZERO_ADDRESS_def getAddress_def
      isAddress_def is_hex_char_def VIRTUAL_ADDRESS_def)

text \<open>
  C5, amended. \<open>checkGraduation\<close> reports \<open>graduated = true\<close> exactly when the token
  names a non-zero pair address, the pair has code, \<open>token0\<close>, \<open>token1\<close> and
  \<open>getReserves\<close> can be read and are well-formed, and the reserves are not both zero.
  In particular a pair whose two reserves are zero is not graduated.
\<close>

theorem checkGraduation_graduated_iff:
  "(graduated (checkGraduation rd) \<longleftrightarrow>
      (\<exists>pair code t0 t1 reserve0 reserve1 stamp.
         rd_uniswapV2Pair rd = Inr pair \<and> pair \<noteq> [] \<and> pair \<noteq> ZERO_ADDRESS \<and> isAddress pair \<and>
         rd_getCode rd = Inr (Some code) \<and> code \<noteq> [] \<and> code \<noteq> ''0x'' \<and>
         rd_token0 rd = Inr t0 \<and> isAddress t0 \<and> rd_token1 rd = Inr t1 \<and> isAddress t1 \<and>
         rd_getReserves rd = Inr (reserve0, reserve1, stamp) \<and>
         \<not> (reserve0 = 0 \<and> reserve1 = 0)))
   \<and> (\<forall>stamp. rd_getReserves rd = Inr (0, 0, stamp) \<longrightarrow> \<not> graduated (checkGraduation rd))"
  by (auto simp: checkGraduation_def isContract_def not_graduated_def getAddress_def
      split: sum.splits option.splits if_splits prod.splits)

theorem checkGraduation_graduated_iff_witness:
  "rd_getReserves
     \<lparr> rd_uniswapV2Pair = Inr sample_pair, rd_getCode = Inr (Some ''0x6080''),
       rd_token0 = Inr sample_token, rd_token1 = Inr VIRTUAL_ADDRESS,
       rd_getReserves = Inr (0, 0, 1700000000) \<rparr> = Inr (0, 0, 1700000000)
   \<and> \<not> graduated (checkGraduation
     \<lparr> rd_uniswapV2Pair = Inr sample_pair, rd_getCode = Inr (Some ''0x6080''),
       rd_token0 = Inr sample_token, rd_token1 = Inr VIRTUAL_ADDRESS,
       rd_getReserves = Inr (0, 0, 1700000000) \<rparr>)"
  using checkGraduation_graduated_iff
    [of "\<lparr> rd_uniswapV2Pair = Inr sample_pair, rd_getCode = Inr (Some ''0x6080''),
       rd_token0 = Inr sample_token, rd_token1 = Inr VIRTUAL_ADDRESS,
       rd_getReserves = Inr (0, 0, 1700000000) \<rparr>"]
  by simp

section \<open>Properties of the tax inflow extractor\<close>

lemma by_tx_snoc: "by_tx (xs @ [x]) = add_by_tx (by_tx xs) x"
  by (simp add: by_tx_def)

lemma by_tx_distinct: "distinct (map fst (by_tx xs))"
  by (induction xs rule: rev_induct) (simp_all add: by_tx_def add_by_tx_def distinct_update)

lemma by_tx_lookup:
  "(case map_of (by_tx xs) h of None \<Rightarrow> [] | Some ys \<Rightarrow> ys) = filter (\<lambda>t. txHash t = h) xs"
proof (induction xs rule: rev_induct)
  case Nil
  then show ?case by (simp add: by_tx_def)
next
  case (snoc x xs)
  show ?case
  proof (cases "txHash x = h")
    case True
    then show ?thesis
      using snoc.IH by (simp add: by_tx_snoc add_by_tx_def update_conv')
  next
    case False
    then show ?thesis
      using snoc.IH by (simp add: by_tx_snoc add_by_tx_def update_conv')
  qed
qed

lemma by_tx_keys: "fst ` set (by_tx xs) = txHash ` set xs"
proof (induction xs rule: rev_induct)
  case Nil
  then show ?case by (simp add: by_tx_def)
next
  case (snoc x xs)
  have "fst ` set (by_tx (xs @ [x])) = dom (map_of (by_tx (xs @ [x])))"
    by (simp add: dom_map_of_conv_image_fst)
  also have "\<dots> = insert (txHash x) (dom (map_of (by_tx xs)))"
    by (simp add: by_tx_snoc add_by_tx_def update_conv')
  also have "\<dots> = insert (txHash x) (txHash ` set xs)"
    using snoc.IH by (simp add: dom_map_of_conv_image_fst)
  finally show ?case by simp
qed

lemma by_tx_entry:
  "(h, grp) \<in> set (by_tx xs) \<longleftrightarrow> (h \<in> txHash ` set xs \<and> grp = filter (\<lambda>t. txHash t = h) xs)"
proof
  assume e: "(h, grp) \<in> set (by_tx xs)"
  then have "map_of (by_tx xs) h = Some grp"
    using by_tx_distinct [of xs] by simp
  with by_tx_lookup [of xs h] have "grp = filter (\<lambda>t. txHash t = h) xs" by simp
  moreover from e have "h \<in> fst ` set (by_tx xs)" by force
  ultimately show "h \<in> txHash ` set xs \<and> grp = filter (\<lambda>t. txHash t = h) xs"
    by (simp add: by_tx_keys)
next
  assume a: "h \<in> txHash ` set xs \<and> grp = filter (\<lambda>t. txHash t = h) xs"
  then have "h \<in> fst ` set (by_tx xs)" by (simp add: by_tx_keys)
  then obtain g where g: "(h, g) \<in> set (by_tx xs)" by force
  then have "map_of (by_tx xs) h = Some g"
    using by_tx_distinct [of xs] by simp
  with by_tx_lookup [of xs h] a have "g = grp" by simp
  with g show "(h, grp) \<in> set (by_tx xs)" by simp
qed

lemma foldl_split_inflows:
  "split_inflows (foldl (split_step r pid st vb) s es)
     = split_inflows s @ concat (map (\<lambda>e. map (virtual_inflow pid st)
          (split_legs r (snd e) (case map_of vb (fst e) of None \<Rightarrow> [] | Some vs \<Rightarrow> vs))) es)"
  by (induction es arbitrary: s) (simp_all add: split_step_def Let_def)

lemma split_legs_Nil [simp]: "split_legs r toks [] = []"
  by (simp add: split_legs_def)

lemma split_legs_subset: "set (split_legs r toks vs) \<subseteq> set vs"
  by (auto simp: split_legs_def Let_def split: option.splits)

lemma split_rule_inflows:
  "split_inflows (split_rule r pid st toks virts)
     = concat (map (\<lambda>e. map (virtual_inflow pid st)
          (split_legs r (snd e) (filter (\<lambda>v. txHash v = fst e) virts))) (by_tx toks))"
proof -
  show ?thesis
    by (simp add: split_rule_def foldl_split_inflows by_tx_lookup)
qed

text \<open>
  C6, the claim as stated fails. The split-tax rule does not look at the launch-path
  addresses: in a transaction with the main leg trader \<open>\<rightarrow>\<close> market, a quote
  transfer from the trader to any other address that is not the tax recipient is
  recorded. Here the recipient is an arbitrary router.
\<close>

theorem split_rule_other_recipient:
  "split_inflows (split_rule (toLowerCase sample_tax) ''p1'' 1700000000
     [\<lparr> t_address = sample_token, t_from = sample_market, t_to = sample_trader,
        t_value = 1000, txHash = ''0xaa'', logIndex = 3, blockNumber = 7 \<rparr>]
     [\<lparr> t_address = VIRTUAL_ADDRESS, t_from = sample_trader, t_to = sample_market,
        t_value = 99, txHash = ''0xaa'', logIndex = 1, blockNumber = 7 \<rparr>,
      \<lparr> t_address = VIRTUAL_ADDRESS, t_from = sample_trader, t_to = sample_router,
        t_value = 1, txHash = ''0xaa'', logIndex = 2, blockNumber = 7 \<rparr>])
   = [\<lparr> ti_projectId = ''p1'', ti_txHash = ''0xaa'', ti_blockNumber = 7, ti_ts = 1700000000,
        ti_token = VIRTUAL_ADDRESS, ti_amount = 1, ti_logIndex = 2 \<rparr>]
   \<and> extractTaxInflows
     [\<lparr> t_address = sample_token, t_from = sample_market, t_to = sample_trader,
        t_value = 1000, txHash = ''0xaa'', logIndex = 3, blockNumber = 7 \<rparr>]
     [\<lparr> t_address = VIRTUAL_ADDRESS, t_from = sample_trader, t_to = sample_market,
        t_value = 99, txHash = ''0xaa'', logIndex = 1, blockNumber = 7 \<rparr>,
      \<lparr> t_address = VIRTUAL_ADDRESS, t_from = sample_trader, t_to = sample_router,
        t_value = 1, txHash = ''0xaa'', logIndex = 2, blockNumber = 7 \<rparr>]
     sample_tax ''p1'' 1700000000
   = Inr [\<lparr> ti_projectId = ''p1'', ti_txHash = ''0xaa'', ti_blockNumber = 7, ti_ts = 1700000000,
        ti_token = VIRTUAL_ADDRESS, ti_amount = 1, ti_logIndex = 2 \<rparr>]
   \<and> \<not> is_launch_path (toLowerCase sample_router)"
  by (simp add: extractTaxInflows_def split_rule_def split_step_def split_legs_def by_tx_def
      add_by_tx_def buy_proxy_def is_main_buy_leg_def is_split_leg_def virtual_inflow_def
      token_inflow_def getAddress_def isAddress_def is_hex_char_def toLowerCase_def
      lower_char_def is_launch_path_def LAUNCH_PATH_ADDRESSES_def LAUNCH_PATH_NET_ADDRESS_def
      LAUNCH_PATH_TAX_ADDRESS_def Let_def)

text \<open>
  C6, amended. An inflow is recorded by the split-tax rule exactly when it is the inflow
  of a quote transfer \<open>v\<close> of the batch such that, with the BUY proxy of the token
  transfers of \<open>v\<close>'s transaction giving the trader and the market, the transaction has
  a positive quote transfer trader \<open>\<rightarrow>\<close> market, and \<open>v\<close> is a positive transfer
  sent by the trader to an address that is neither the market nor the tax recipient.
\<close>

theorem split_rule_records:
  "x \<in> set (split_inflows (split_rule r pid st toks virts)) \<longleftrightarrow>
     (\<exists>v proxy.
        x = virtual_inflow pid st v \<and> v \<in> set virts \<and>
        buy_proxy (filter (\<lambda>t. txHash t = txHash v) toks) = Some proxy \<and>
        (\<exists>m \<in> set virts. txHash m = txHash v \<and>
           is_main_buy_leg (toLowerCase (t_to proxy)) (toLowerCase (t_from proxy)) m) \<and>
        is_split_leg (toLowerCase (t_to proxy)) (toLowerCase (t_from proxy)) r v)"
  (is "?L \<longleftrightarrow> ?R")
proof
  assume ?L
  then obtain h grp v where e: "(h, grp) \<in> set (by_tx toks)"
    and v: "v \<in> set (split_legs r grp (filter (\<lambda>v. txHash v = h) virts))"
    and x: "x = virtual_inflow pid st v"
    by (auto simp: split_rule_inflows)
  from e have grp: "grp = filter (\<lambda>t. txHash t = h) toks" by (simp add: by_tx_entry)
  from v split_legs_subset have vin: "v \<in> set virts" "txHash v = h" by fastforce+
  from v obtain proxy where p: "buy_proxy grp = Some proxy"
    and m: "list_ex (is_main_buy_leg (toLowerCase (t_to proxy)) (toLowerCase (t_from proxy)))
              (filter (\<lambda>v. txHash v = h) virts)"
    and l: "is_split_leg (toLowerCase (t_to proxy)) (toLowerCase (t_from proxy)) r v"
    by (auto simp: split_legs_def Let_def split: option.splits if_splits)
  from m have "\<exists>m \<in> set virts. txHash m = txHash v \<and>
           is_main_buy_leg (toLowerCase (t_to proxy)) (toLowerCase (t_from proxy)) m"
    using vin by (auto simp: list_ex_iff)
  with x vin p l grp show ?R by blast
next
  assume ?R
  then obtain v proxy m where x: "x = virtual_inflow pid st v" and vin: "v \<in> set virts"
    and p: "buy_proxy (filter (\<lambda>t. txHash t = txHash v) toks) = Some proxy"
    and m: "m \<in> set virts" "txHash m = txHash v"
       "is_main_buy_leg (toLowerCase (t_to proxy)) (toLowerCase (t_from proxy)) m"
    and l: "is_split_leg (toLowerCase (t_to proxy)) (toLowerCase (t_from proxy)) r v"
    by blast
  let ?h = "txHash v"
  let ?grp = "filter (\<lambda>t. txHash t = ?h) toks"
  from p have "?grp \<noteq> []" by (auto simp: buy_proxy_def)
  then obtain t where "t \<in> set toks" "txHash t = ?h" by (auto simp: filter_empty_conv)
  then have "?h \<in> txHash ` set toks" by (metis imageI)
  then have e: "(?h, ?grp) \<in> set (by_tx toks)" by (simp add: by_tx_entry)
  have ne: "filter (\<lambda>w. txHash w = ?h) virts \<noteq> []"
    using vin by (auto simp: filter_empty_conv)
  have mm: "list_ex (is_main_buy_leg (toLowerCase (t_to proxy)) (toLowerCase (t_from proxy)))
      (filter (\<lambda>w. txHash w = ?h) virts)"
    unfolding list_ex_iff using m by (intro bexI [of _ m]) simp_all
  have "v \<in> set (filter (is_split_leg (toLowerCase (t_to proxy)) (toLowerCase (t_from proxy)) r)
      (filter (\<lambda>w. txHash w = ?h) virts))"
    using vin l by simp
  then have leg: "v \<in> set (split_legs r ?grp (filter (\<lambda>w. txHash w = ?h) virts))"
    using ne mm p by (simp add: split_legs_def)
  have "x \<in> set (map (virtual_inflow pid st)
      (split_legs r (snd (?h, ?grp)) (filter (\<lambda>v. txHash v = fst (?h, ?grp)) virts)))"
    using x leg by simp
  with e show ?L
    unfolding split_rule_inflows set_concat set_map image_image by (rule UN_I)
qed

section \<open>Properties of the cost ledger\<close>

text \<open>
  The loop body never throws: the division by \<open>tokensReceived\<close> is reached only when
  \<open>tokensReceived > 0\<close>. A position that is counted has a positive remaining cost
  and a positive number of remaining tokens.
\<close>

lemma open_position_total:
  "\<exists>p. open_position bm row = Inr p \<and> (case p of None \<Rightarrow> True | Some (c, t) \<Rightarrow> 0 < c \<and> 0 < t)"
  by (auto simp: open_position_def remainingCostGross_of_def bigint_div_def Let_def
      split: option.splits)

lemma cost_loop_nonneg:
  "0 \<le> totalRemainingCostGross acc \<Longrightarrow> 0 \<le> totalRemainingTokens acc \<Longrightarrow>
   \<exists>acc'. cost_loop bm acc rows = Inr acc' \<and> 0 \<le> totalRemainingCostGross acc'
     \<and> 0 \<le> totalRemainingTokens acc'"
proof (induction rows arbitrary: acc)
  case Nil
  then show ?case by simp
next
  case (Cons row rows)
  from open_position_total [of bm row] obtain p where p: "open_position bm row = Inr p"
    "case p of None \<Rightarrow> True | Some (c, t) \<Rightarrow> 0 < c \<and> 0 < t" by blast
  show ?case
  proof (cases p)
    case None
    with p Cons show ?thesis by simp
  next
    case (Some ct)
    obtain c t where ct: "ct = (c, t)" by (cases ct)
    with p Some have pos: "0 < c" "0 < t" by simp_all
    let ?acc = "\<lparr> totalRemainingCostGross = totalRemainingCostGross acc + c,
              totalRemainingTokens = totalRemainingTokens acc + t,
              openCosts =
                (case js_div (Number c) (Number t) of
                   Fin q \<Rightarrow> if q > 0 then openCosts acc @ [q] else openCosts acc
                 | _ \<Rightarrow> openCosts acc) \<rparr>"
    have "0 \<le> totalRemainingCostGross ?acc" "0 \<le> totalRemainingTokens ?acc"
      using pos Cons.prems by simp_all
    from Cons.IH [OF this] show ?thesis
      using p(1) Some ct by simp
  qed
qed

lemma sell_without_buy_skipped:
  "tokensReceived row \<le> 0 \<Longrightarrow> open_position bm row = Inr None"
  by (simp add: open_position_def Let_def)

text \<open>
  C7. For every ledger reached from any table by any sequence of trades (a SELL with no
  prior BUY included; \<open>tokensSold \<le> tokensReceived\<close> is not assumed), every balance
  map and every row: the loop body of \<open>computeCostSummary\<close> returns, and the remaining
  cost it derives is \<open>\<ge> 0\<close>; the loop over the rows of the project returns with a
  total remaining cost \<open>\<ge> 0\<close>; and \<open>computeCostSummary\<close> returns a summary.
\<close>

theorem remaining_cost_nonneg:
  "(\<exists>p. open_position bm row = Inr p \<and>
        (case p of None \<Rightarrow> True | Some (remainingCost, remainingTokens) \<Rightarrow> 0 \<le> remainingCost))
   \<and> (\<exists>acc. cost_loop bm
          \<lparr> totalRemainingCostGross = 0, totalRemainingTokens = 0, openCosts = [] \<rparr>
          (filter (\<lambda>r. ac_projectId r = pid) (map snd (updateAddressCosts db trades))) = Inr acc
        \<and> 0 \<le> totalRemainingCostGross acc)
   \<and> (\<exists>summary. computeCostSummary (updateAddressCosts db trades) balances pid = Inr summary)"
proof (intro conjI)
  from open_position_total [of bm row] obtain p where p: "open_position bm row = Inr p"
    "case p of None \<Rightarrow> True | Some (c, t) \<Rightarrow> 0 < c \<and> 0 < t" by blast
  from p(2) have "case p of None \<Rightarrow> True | Some (remainingCost, remainingTokens) \<Rightarrow> 0 \<le> remainingCost"
    by (cases p) auto
  with p(1) show "\<exists>p. open_position bm row = Inr p \<and>
        (case p of None \<Rightarrow> True | Some (remainingCost, remainingTokens) \<Rightarrow> 0 \<le> remainingCost)"
    by blast
next
  show "\<exists>acc. cost_loop bm
          \<lparr> totalRemainingCostGross = 0, totalRemainingTokens = 0, openCosts = [] \<rparr>
          (filter (\<lambda>r. ac_projectId r = pid) (map snd (updateAddressCosts db trades))) = Inr acc
        \<and> 0 \<le> totalRemainingCostGross acc"
    using cost_loop_nonneg [of "\<lparr> totalRemainingCostGross = 0, totalRemainingTokens = 0, openCosts = [] \<rparr>"]
    by (metis (no_types, lifting) order_refl summary_acc.select_convs(1,2))
next
  from cost_loop_nonneg [of "\<lparr> totalRemainingCostGross = 0, totalRemainingTokens = 0, openCosts = [] \<rparr>"
      "balance_map (filter (\<lambda>b. tb_projectId b = pid) balances)"
      "filter (\<lambda>r. ac_projectId r = pid) (map snd (updateAddressCosts db trades))"]
  obtain acc where "cost_loop (balance_map (filter (\<lambda>b. tb_projectId b = pid) balances))
       \<lparr> totalRemainingCostGross = 0, totalRemainingTokens = 0, openCosts = [] \<rparr>
       (filter (\<lambda>r. ac_projectId r = pid) (map snd (updateAddressCosts db trades))) = Inr acc"
    by auto
  then show "\<exists>summary. computeCostSummary (updateAddressCosts db trades) balances pid = Inr summary"
    by (simp add: computeCostSummary_def Let_def)
qed


theorem remaining_cost_nonneg_witness:
  "\<exists>summary. computeCostSummary
     (updateAddressCosts []
        [\<lparr> projectId = ''p1'', venue = INTERNAL, marketAddress = sample_market,
           tr_txHash = ''0xaa'', tr_logIndex = 1, tr_blockNumber = 7, ts = 1700000000,
           trader = sample_trader, side = SELL,
           quoteIn = None, quoteInGross = None, quoteOut = Some 50, tokenIn = Some 400,
           tokenOut = None, priceQuotePerToken = Some (1 / 8) \<rparr>,
         \<lparr> projectId = ''p1'', venue = INTERNAL, marketAddress = sample_market,
           tr_txHash = ''0xab'', tr_logIndex = 1, tr_blockNumber = 8, ts = 1700000000,
           trader = sample_trader, side = BUY,
           quoteIn = Some 99, quoteInGross = Some 100, quoteOut = None, tokenIn = None,
           tokenOut = Some 1000, priceQuotePerToken = Some (99 / 1000) \<rparr>])
     [\<lparr> tb_projectId = ''p1'', tb_address = sample_trader, tb_balance = 600 \<rparr>] ''p1''
   = Inr summary"
  using remaining_cost_nonneg by blast

section \<open>Properties of the orchestrator's insert phase\<close>

text \<open>
  C9. The claim is that an event is emitted only for a newly inserted trade, so that
  processing a block range a second time emits no trade event. In the code
  \<open>eventBus.emit\<close> stands after the \<open>if (changes > 0)\<close>, not inside it, and the
  duplicate insert does not throw. Processing one trade on an empty table inserts it,
  updates the cost ledger and emits one event; processing the same trade again changes
  neither the table nor the ledger and counts no insertion, but emits the trade event
  again.
\<close>

theorem reprocessing_emits_trade_event:
  "insert_phase ''p1'' [] [] [] [sample_trade]
     = ([sample_trade],
        [((''p1'', sample_trader),
          \<lparr> ac_projectId = ''p1'', ac_address = sample_trader, spentQuoteGross = 99,
            spentQuoteGrossActual = 100, tokensReceived = 1000, tokensSold = 0,
            quoteReceived = 0, avgCost = Some (Fin (99 / 1000)),
            avgCostGross = Some (Fin (1 / 10)), lastUpdatedBlock = Some 7 \<rparr>)],
        [WsTrade ''p1'' sample_trade], 1)
   \<and> insert_phase ''p1'' [sample_trade]
        [((''p1'', sample_trader),
          \<lparr> ac_projectId = ''p1'', ac_address = sample_trader, spentQuoteGross = 99,
            spentQuoteGrossActual = 100, tokensReceived = 1000, tokensSold = 0,
            quoteReceived = 0, avgCost = Some (Fin (99 / 1000)),
            avgCostGross = Some (Fin (1 / 10)), lastUpdatedBlock = Some 7 \<rparr>)]
        [] [sample_trade]
     = ([sample_trade],
        [((''p1'', sample_trader),
          \<lparr> ac_projectId = ''p1'', ac_address = sample_trader, spentQuoteGross = 99,
            spentQuoteGrossActual = 100, tokensReceived = 1000, tokensSold = 0,
            quoteReceived = 0, avgCost = Some (Fin (99 / 1000)),
            avgCostGross = Some (Fin (1 / 10)), lastUpdatedBlock = Some 7 \<rparr>)],
        [WsTrade ''p1'' sample_trade], 0)"
  by (simp add: insert_phase_def insert_and_emit_def insert_trade_def trade_key_def
      whale_amount_def whaleThresholdSingleTrade_def updateAddressCosts_def
      updateAddressCost_def avg_of_def Number_def)

section \<open>Properties of the log reader\<close>

lemma half_bounds:
  "1 < (d::int) \<Longrightarrow> d sdiv 2 = d div 2 \<and> 0 < d div 2 \<and> d div 2 < d"
  by (simp add: signed_divide_int_def) presburger

lemma range_message: "is_range_message ''query exceeds max block range''"
  unfolding is_range_message_def by code_simp

lemma capped_fits:
  "length (logs_in h a b) \<le> cap \<Longrightarrow> capped_getLogs h cap n a b = Inr (logs_in h a b)"
  by (simp add: capped_getLogs_def)

lemma capped_over:
  "cap < length (logs_in h a b) \<Longrightarrow>
     capped_getLogs h cap n a b = Inl (ProviderError ''query exceeds max block range'')"
  by (simp add: capped_getLogs_def)

lemma logs_in_split:
  assumes "sorted (map lg_blockNumber h)" and am: "a \<le> m + 1" and mb: "m \<le> b"
  shows "logs_in h a m @ logs_in h (m + 1) b = logs_in h a b"
  using assms(1)
proof (induction h)
  case Nil
  then show ?case by (simp add: logs_in_def)
next
  case (Cons l h)
  then have later: "\<forall>x \<in> set h. lg_blockNumber l \<le> lg_blockNumber x" by simp
  from Cons have IH: "logs_in h a m @ logs_in h (m + 1) b = logs_in h a b" by simp
  show ?case
  proof (cases "lg_blockNumber l \<le> m")
    case True
    then show ?thesis using IH mb by (auto simp: logs_in_def)
  next
    case False
    with later have "logs_in h a m = []" by (auto simp: logs_in_def filter_empty_conv)
    then show ?thesis using IH False am by (auto simp: logs_in_def)
  qed
qed

text \<open>
  Where the bisection never meets a failing range of one or two blocks (the history is in
  block order and every range of at most two consecutive blocks inside the requested
  range fits the threshold), the result is the logs of the requested range, with no sleep
  and no failure observation.
\<close>

lemma fetch_within_cap:
  assumes srt: "sorted (map lg_blockNumber h)"
    and win: "\<And>x y. a \<le> x \<Longrightarrow> x \<le> y \<Longrightarrow> y \<le> b \<Longrightarrow> y - x \<le> 1
                \<Longrightarrow> length (logs_in h x y) \<le> cap"
  shows "fetchTransferLogs (capped_getLogs h cap) c a b = (Inr (logs_in h a b), [])"
  using win
proof (induction "capped_getLogs h cap" c a b rule: fetchTransferLogs.induct)
  case (1 c a b)
  show ?case
  proof (cases "length (logs_in h a b) \<le> cap")
    case True
    then show ?thesis by (subst fetchTransferLogs.simps) (simp add: capped_fits)
  next
    case False
    then have over: "capped_getLogs h cap 0 a b = Inl (ProviderError ''query exceeds max block range'')"
      by (simp add: capped_over)
    have ne: "logs_in h a b \<noteq> []" using False by auto
    then have ab: "a \<le> b" by (auto simp: logs_in_def filter_empty_conv)
    have wide: "\<not> b - a \<le> 1"
      using "1.prems" [of a b] ab False by auto
    define mid where "mid = a + (b - a) sdiv 2"
    from wide have "1 < b - a" by simp
    from half_bounds [OF this] have mid: "a \<le> mid" "mid < b"
      by (simp_all add: mid_def)
    have msg: "error_message (ProviderError ''query exceeds max block range'')
                 = ''query exceeds max block range''"
      by (simp add: error_message_def)
    have L: "fetchTransferLogs (capped_getLogs h cap) c a mid = (Inr (logs_in h a mid), [])"
    proof (rule "1.hyps"(1) [OF over msg [symmetric] range_message wide mid_def])
      fix x y
      assume "a \<le> x" "x \<le> y" "y \<le> mid" "y - x \<le> 1"
      then show "length (logs_in h x y) \<le> cap"
        using mid by (intro "1.prems") simp_all
    qed
    have R: "fetchTransferLogs (capped_getLogs h cap) c (mid + 1) b
               = (Inr (logs_in h (mid + 1) b), [])"
    proof (rule "1.hyps"(2) [OF over msg [symmetric] range_message wide mid_def refl])
      fix x y
      assume "mid + 1 \<le> x" "x \<le> y" "y \<le> b" "y - x \<le> 1"
      then show "length (logs_in h x y) \<le> cap"
        using mid by (intro "1.prems") simp_all
    qed
    have "logs_in h a mid @ logs_in h (mid + 1) b = logs_in h a b"
      using mid by (intro logs_in_split [OF srt]) simp_all
    then show ?thesis
      using over wide L R
      by (subst fetchTransferLogs.simps)
        (simp add: msg range_message Let_def mid_def [symmetric])
  qed
qed

lemma direct_retries_capped:
  "cap < length (logs_in h a b) \<Longrightarrow>
     direct_retries (capped_getLogs h cap) a b [0, 1, 2]
       = (None, [Sleep 500, Sleep 1000, Sleep 1500])"
  by (simp add: capped_getLogs_def)

text \<open>
  A failing range of at most two blocks is not split: it is retried three times after
  500, 1000 and 1500 ms and then gives the empty list and one failure observation.
\<close>

lemma fetch_over_cap_no_split:
  assumes over: "cap < length (logs_in h a b)" and narrow: "b - a \<le> 1" and c: "isAddress c"
  shows "fetchTransferLogs (capped_getLogs h cap) c a b
     = (Inr [], [Sleep 500, Sleep 1000, Sleep 1500,
                 RecordFailure c a b ''query exceeds max block range''])"
  using over narrow c direct_retries_capped [OF over]
  by (subst fetchTransferLogs.simps)
    (simp add: capped_over error_message_def range_message getAddress_def)

text \<open>
  C3. The claim is that, against a provider that fails exactly when a range holds more
  logs than the threshold, \<open>fetchTransferLogs\<close> bisects failing ranges until they
  collapse to a single block and so returns the logs of a single unrestricted fetch. The
  code stops bisecting at \<open>toBlock - fromBlock <= 1n\<close>, that is at a range of two
  blocks, under the comment \<open>Can't split further\<close>. With one log in block 4, one in
  block 5 and a threshold of one log, the range \<open>[4, 5]\<close> is retried as a whole three
  times and comes back empty with a failure observation, although the unrestricted fetch
  returns both logs and each of the two blocks can be fetched on its own.
\<close>

theorem fetch_two_block_range_not_bisected:
  "fetchTransferLogs (capped_getLogs [sample_log 4 0, sample_log 5 0] 1) sample_token 4 5
     = (Inr [], [Sleep 500, Sleep 1000, Sleep 1500,
                 RecordFailure sample_token 4 5 ''query exceeds max block range''])
   \<and> unlimited_getLogs [sample_log 4 0, sample_log 5 0] 0 4 5
     = Inr [sample_log 4 0, sample_log 5 0]
   \<and> capped_getLogs [sample_log 4 0, sample_log 5 0] 1 0 4 4 = Inr [sample_log 4 0]
   \<and> capped_getLogs [sample_log 4 0, sample_log 5 0] 1 0 5 5 = Inr [sample_log 5 0]"
  by (subst fetchTransferLogs.simps)
    (simp add: capped_getLogs_def unlimited_getLogs_def logs_in_def sample_log_def
      error_message_def range_message getAddress_def isAddress_def is_hex_char_def)

section \<open>Properties of the first-active-block locator\<close>

lemma fetch_unlimited:
  "fetchTransferLogs (unlimited_getLogs h) c a b = (Inr (logs_in h a b), [])"
  by (subst fetchTransferLogs.simps) (simp add: unlimited_getLogs_def)

lemma logs_in_single_block:
  assumes "h \<noteq> []" and "\<forall>l \<in> set h. lg_blockNumber l = F"
  shows "logs_in h a b = (if a \<le> F \<and> F \<le> b then h else [])"
  using assms by (auto simp: logs_in_def filter_empty_conv intro!: filter_True)

lemma Min_single_block:
  assumes "h \<noteq> []" and "\<forall>l \<in> set h. lg_blockNumber l = F"
  shows "Min (set (map lg_blockNumber h)) = F"
proof -
  have "set (map lg_blockNumber h) = {F}" using assms by (cases h) auto
  then show ?thesis by simp
qed

lemma mid_bounds: "lo \<le> hi \<Longrightarrow> lo \<le> (lo + hi) div 2 \<and> (lo + hi) div 2 \<le> (hi::int)"
  by presburger

lemma scan_back_single_block:
  assumes h: "h \<noteq> []" "\<forall>l \<in> set h. lg_blockNumber l = F" and F: "0 < F" and mw: "0 \<le> maxW"
  shows "0 \<le> w \<Longrightarrow> F \<le> toB \<Longrightarrow>
     \<exists>hf ht. scan_back (unlimited_getLogs h) c maxW w toB = Some (Some (hf, ht)) \<and> hf \<le> F \<and> F \<le> ht"
proof (induction "nat toB" arbitrary: toB w rule: less_induct)
  case less
  define fromB where "fromB = max 0 (toB - w)"
  have pos: "0 < toB" using F less.prems by simp
  show ?case
  proof (cases "fromB \<le> F")
    case True
    then have "logs_in h fromB toB = h" using less.prems by (simp add: logs_in_single_block [OF h])
    then show ?thesis
      using pos h(1) True less.prems
      by (subst scan_back.simps) (simp add: fetch_unlimited fromB_def [symmetric] Let_def del: fetchTransferLogs.simps)
  next
    case False
    then have e: "logs_in h fromB toB = []" by (simp add: logs_in_single_block [OF h])
    from False F have fb: "fromB = toB - w" by (simp add: fromB_def max_def split: if_splits)
    have "nat (fromB - 1) < nat toB" using fb less.prems pos by simp
    moreover have "0 \<le> min (w * 2) maxW" using less.prems mw by simp
    moreover have "F \<le> fromB - 1" using False by simp
    ultimately obtain hf ht where
      "scan_back (unlimited_getLogs h) c maxW (min (w * 2) maxW) (fromB - 1) = Some (Some (hf, ht))"
      "hf \<le> F" "F \<le> ht"
      using less.hyps by blast
    then show ?thesis
      using pos e
      by (subst scan_back.simps) (simp add: fetch_unlimited fromB_def [symmetric] Let_def del: fetchTransferLogs.simps)
  qed
qed

lemma binary_search_found:
  assumes h: "h \<noteq> []" "\<forall>l \<in> set h. lg_blockNumber l = F"
  shows "hi < F \<Longrightarrow> binary_search (unlimited_getLogs h) c lo hi F = Some F"
proof (induction "nat (hi - lo + 1)" arbitrary: lo rule: less_induct)
  case less
  show ?case
  proof (cases "lo \<le> hi")
    case True
    define mid where "mid = (lo + hi) div 2"
    from mid_bounds [OF True] have m: "lo \<le> mid" "mid \<le> hi" by (simp_all add: mid_def)
    then have e: "logs_in h lo mid = []" using less.prems by (simp add: logs_in_single_block [OF h])
    have "nat (hi - (mid + 1) + 1) < nat (hi - lo + 1)" using m True by simp
    from less.hyps [OF this less.prems]
    have "binary_search (unlimited_getLogs h) c (mid + 1) hi F = Some F" .
    then show ?thesis
      using True e
      by (subst binary_search.simps) (simp add: fetch_unlimited mid_def [symmetric] Let_def del: fetchTransferLogs.simps)
  next
    case False
    then show ?thesis by (subst binary_search.simps) simp
  qed
qed

lemma binary_search_single_block:
  assumes h: "h \<noteq> []" "\<forall>l \<in> set h. lg_blockNumber l = F"
  shows "lo \<le> F \<Longrightarrow> F \<le> hi \<Longrightarrow> binary_search (unlimited_getLogs h) c lo hi fb = Some F"
proof (induction "nat (hi - lo + 1)" arbitrary: lo rule: less_induct)
  case less
  then have le: "lo \<le> hi" by simp
  define mid where "mid = (lo + hi) div 2"
  from mid_bounds [OF le] have m: "lo \<le> mid" "mid \<le> hi" by (simp_all add: mid_def)
  show ?case
  proof (cases "F \<le> mid")
    case True
    then have l: "logs_in h lo mid = h" using less.prems by (simp add: logs_in_single_block [OF h])
    have "binary_search (unlimited_getLogs h) c lo (F - 1) F = Some F"
      by (rule binary_search_found [OF h]) simp
    then show ?thesis
      using le l h(1) Min_single_block [OF h]
      by (subst binary_search.simps) (simp add: fetch_unlimited mid_def [symmetric] Let_def del: fetchTransferLogs.simps)
  next
    case False
    then have e: "logs_in h lo mid = []" by (simp add: logs_in_single_block [OF h])
    have "nat (hi - (mid + 1) + 1) < nat (hi - lo + 1)" using m le by simp
    moreover have "mid + 1 \<le> F" using False by simp
    ultimately have "binary_search (unlimited_getLogs h) c (mid + 1) hi fb = Some F"
      using less.hyps less.prems(2) by blast
    then show ?thesis
      using le e
      by (subst binary_search.simps) (simp add: fetch_unlimited mid_def [symmetric] Let_def del: fetchTransferLogs.simps)
  qed
qed

text \<open>
  When all transfers of the token lie in one block \<open>F\<close>, the locator returns \<open>F\<close>
  for every non-negative window size: the scan reaches a window that holds \<open>F\<close> and
  the binary search narrows it down to \<open>F\<close>.
\<close>

lemma first_block_single_active_block:
  assumes h: "h \<noteq> []" "\<forall>l \<in> set h. lg_blockNumber l = F"
    and F: "0 < F" "F \<le> latest" and w: "0 \<le> w" "0 \<le> maxW"
  shows "findFirstActiveBlock (unlimited_getLogs h) c latest w maxW = Some F"
proof -
  from scan_back_single_block [OF h F(1) w(2) w(1) F(2), of c]
  obtain hf ht where s: "scan_back (unlimited_getLogs h) c maxW w latest = Some (Some (hf, ht))"
    "hf \<le> F" "F \<le> ht" by blast
  from binary_search_single_block [OF h s(2,3)] s(1)
  show ?thesis by (simp add: findFirstActiveBlock_def)
qed

text \<open>
  C8. The claim is that a history whose earliest transfer is in block 12345 gives 12345.
  The backward scan stops at the newest window that holds a log, and the binary search
  then stays inside that window. With the chain head at 50000, the configured initial
  window of 20000 blocks and transfers in the blocks 12345 and 45000, the first window
  \<open>[30000, 50000]\<close> already holds a log and the result is 45000.
\<close>

theorem first_block_later_window:
  "findFirstActiveBlock (unlimited_getLogs [sample_log 12345 0, sample_log 45000 0])
     sample_token 50000 initialScanWindow maxScanWindow = Some 45000"
  by (simp add: findFirstActiveBlock_def scan_back.simps binary_search.simps
      fetch_unlimited logs_in_def sample_log_def initialScanWindow_def maxScanWindow_def
      del: fetchTransferLogs.simps)

end
